theory Spec2Isabelle
  imports Main "HOL-Library.Monad_Syntax"
begin

section \<open>The timestamp localizer\<close>

subsection \<open>Python's datetime, as far as the program uses it\<close>

text \<open>
  \<^verbatim>\<open>convert_to_canada_central_time\<close> calls the standard library for parsing, calendar
  arithmetic and formatting. These are not part of the repository; they are modelled after
  CPython's \<^verbatim>\<open>datetime\<close> module: proleptic Gregorian ordinals (\<^verbatim>\<open>_ymd2ord\<close>,
  \<^verbatim>\<open>_ord2ymd\<close>), \<^verbatim>\<open>weekday()\<close> with Monday as 0, addition of a \<^verbatim>\<open>timedelta\<close>
  through the ordinal, comparison field by field. A Python \<^verbatim>\<open>str\<close> is a \<^typ>\<open>string\<close>,
  one \<^typ>\<open>char\<close> per code point.
\<close>

record datetime =
  year :: int
  month :: int
  day :: int
  hour :: int
  minute :: int
  second :: int
  microsecond :: int
  tzinfo :: "int option"

text \<open>\<open>tzinfo\<close> is the UTC offset in microseconds, \<open>None\<close> for a naive value.\<close>

definition is_leap :: "int \<Rightarrow> bool" where
  "is_leap y = (y mod 4 = 0 \<and> (y mod 400 = 0 \<or> y mod 100 \<noteq> 0))"

definition days_before_year :: "int \<Rightarrow> int" where
  "days_before_year y =
     (y - 1) * 365 + (y - 1) div 4 - (y - 1) div 100 + (y - 1) div 400"

definition DAYS_IN_MONTH :: "int list" where
  "DAYS_IN_MONTH = [-1, 31, 28, 31, 30, 31, 30, 31, 31, 30, 31, 30, 31]"

definition DAYS_BEFORE_MONTH :: "int list" where
  "DAYS_BEFORE_MONTH = [-1, 0, 31, 59, 90, 120, 151, 181, 212, 243, 273, 304, 334]"

definition days_in_month :: "int \<Rightarrow> int \<Rightarrow> int" where
  "days_in_month y m = (if m = 2 \<and> is_leap y then 29 else DAYS_IN_MONTH ! nat m)"

definition days_before_month :: "int \<Rightarrow> int \<Rightarrow> int" where
  "days_before_month y m =
     DAYS_BEFORE_MONTH ! nat m + (if 2 < m \<and> is_leap y then 1 else 0)"

definition ymd2ord :: "int \<Rightarrow> int \<Rightarrow> int \<Rightarrow> int" where
  "ymd2ord y m d = days_before_year y + days_before_month y m + d"

definition ord2ymd :: "int \<Rightarrow> int \<times> int \<times> int" where
  "ord2ymd ordinal =
     (let n = ordinal - 1;
          n400 = n div 146097; n = n mod 146097;
          n100 = n div 36524; n = n mod 36524;
          n4 = n div 1461; n = n mod 1461;
          n1 = n div 365; n = n mod 365;
          y = n400 * 400 + 1 + n100 * 100 + n4 * 4 + n1
      in if n1 = 4 \<or> n100 = 4 then (y - 1, 12, 31)
         else
           (let leapyear = (n1 = 3 \<and> (n100 = 3 \<or> n4 \<noteq> 24));
                m = (n + 50) div 32;
                preceding = DAYS_BEFORE_MONTH ! nat m + (if 2 < m \<and> leapyear then 1 else 0)
            in if n < preceding
               then (let m' = m - 1;
                         preceding' = preceding -
                           (DAYS_IN_MONTH ! nat m' + (if m' = 2 \<and> leapyear then 1 else 0))
                     in (y, m', n - preceding' + 1))
               else (y, m, n - preceding + 1)))"

definition MAXORDINAL :: int where
  "MAXORDINAL = 3652059"

text \<open>
  The constructor \<^verbatim>\<open>datetime(y, m, d, hh, mm, ss, us, tz)\<close> raises \<^verbatim>\<open>ValueError\<close> on a
  field out of range; \<open>None\<close> stands for the exception.
\<close>

definition mk_datetime ::
  "int \<Rightarrow> int \<Rightarrow> int \<Rightarrow> int \<Rightarrow> int \<Rightarrow> int \<Rightarrow> int \<Rightarrow> int option \<Rightarrow> datetime option" where
  "mk_datetime y m d hh mm ss us tz =
     (if 1 \<le> y \<and> y \<le> 9999 \<and> 1 \<le> m \<and> m \<le> 12 \<and> 1 \<le> d \<and> d \<le> days_in_month y m \<and>
         0 \<le> hh \<and> hh \<le> 23 \<and> 0 \<le> mm \<and> mm \<le> 59 \<and> 0 \<le> ss \<and> ss \<le> 59 \<and>
         0 \<le> us \<and> us \<le> 999999
      then Some \<lparr>year = y, month = m, day = d, hour = hh, minute = mm, second = ss,
                 microsecond = us, tzinfo = tz\<rparr>
      else None)"

definition toordinal :: "datetime \<Rightarrow> int" where
  "toordinal dt = ymd2ord (year dt) (month dt) (day dt)"

definition weekday :: "datetime \<Rightarrow> int" where
  "weekday dt = (toordinal dt + 6) mod 7"

text \<open>A \<^verbatim>\<open>timedelta\<close> is its length in microseconds.\<close>

definition timedelta :: "int \<Rightarrow> int \<Rightarrow> int" where
  "timedelta days hours = (days * 86400 + hours * 3600) * 1000000"

text \<open>
  \<^verbatim>\<open>datetime.__add__\<close>: the sum is computed from the ordinal and the time of day, and
  \<^verbatim>\<open>OverflowError\<close> (\<open>None\<close>) is raised when the day leaves \<open>1..MAXORDINAL\<close>. The
  \<open>tzinfo\<close> of the left operand is kept.
\<close>

definition datetime_add :: "datetime \<Rightarrow> int \<Rightarrow> datetime option" where
  "datetime_add dt delta =
     (let total = (toordinal dt * 86400 + hour dt * 3600 + minute dt * 60 + second dt) * 1000000
                    + microsecond dt + delta;
          days = total div 86400000000;
          rest = total mod 86400000000;
          secs = rest div 1000000
      in if 0 < days \<and> days \<le> MAXORDINAL
         then (case ord2ymd days of
                 (y, m, d) \<Rightarrow>
                   Some \<lparr>year = y, month = m, day = d, hour = secs div 3600,
                         minute = (secs mod 3600) div 60, second = secs mod 60,
                         microsecond = rest mod 1000000, tzinfo = tzinfo dt\<rparr>)
         else None)"

text \<open>Comparison of two naive values: the fields in order.\<close>

definition dt_key :: "datetime \<Rightarrow> int list" where
  "dt_key dt = [year dt, month dt, day dt, hour dt, minute dt, second dt, microsecond dt]"

fun lex_less :: "int list \<Rightarrow> int list \<Rightarrow> bool" where
  "lex_less (x # xs) (y # ys) = (x < y \<or> (x = y \<and> lex_less xs ys))"
| "lex_less [] (y # ys) = True"
| "lex_less _ [] = False"

definition dt_less :: "datetime \<Rightarrow> datetime \<Rightarrow> bool" where
  "dt_less a b = lex_less (dt_key a) (dt_key b)"

definition dt_le :: "datetime \<Rightarrow> datetime \<Rightarrow> bool" where
  "dt_le a b = (dt_less a b \<or> dt_key a = dt_key b)"

definition replace_tzinfo_None :: "datetime \<Rightarrow> datetime" where
  "replace_tzinfo_None dt = dt\<lparr>tzinfo := None\<rparr>"

subsection \<open>Formatting\<close>

definition digit_char :: "int \<Rightarrow> char" where
  "digit_char d = ''0123456789'' ! nat d"

definition pad2 :: "int \<Rightarrow> string" where
  "pad2 n = [digit_char (n div 10 mod 10), digit_char (n mod 10)]"

definition pad4 :: "int \<Rightarrow> string" where
  "pad4 n = pad2 (n div 100) @ pad2 (n mod 100)"

text \<open>\<^verbatim>\<open>strftime('%Y-%m-%d')\<close>, the year written with four digits.\<close>

definition strftime_Ymd :: "datetime \<Rightarrow> string" where
  "strftime_Ymd dt = pad4 (year dt) @ ''-'' @ pad2 (month dt) @ ''-'' @ pad2 (day dt)"

text \<open>\<^verbatim>\<open>strftime('%I:%M %p')\<close>: the hour of the 12-hour clock with two digits, then AM or PM.\<close>

definition strftime_IMp :: "datetime \<Rightarrow> string" where
  "strftime_IMp dt =
     pad2 (if hour dt mod 12 = 0 then 12 else hour dt mod 12) @ '':'' @ pad2 (minute dt)
       @ '' '' @ (if hour dt < 12 then ''AM'' else ''PM'')"

definition lstrip :: "char \<Rightarrow> string \<Rightarrow> string" where
  "lstrip c s = dropWhile (\<lambda>x. x = c) s"

subsection \<open>Parsing\<close>

text \<open>
  \<^verbatim>\<open>datetime.fromisoformat\<close>, for the format every CPython since 3.7 reads the same way:
  \<^verbatim>\<open>YYYY-MM-DD\<close>, alone or followed by one separator character and
  \<^verbatim>\<open>HH[:MM[:SS[.fff[fff]]]]\<close>, then optionally a UTC offset \<^verbatim>\<open>+HH:MM[:SS[.ffffff]]\<close> (or
  with \<^verbatim>\<open>-\<close>). \<open>None\<close> stands for \<^verbatim>\<open>ValueError\<close>. The upstream sends
  \<^verbatim>\<open>2024-07-04T18:00:00.000Z\<close>, which is of this format once \<^verbatim>\<open>Z\<close> is replaced. Later
  Python versions read further ISO 8601 forms, which this model rejects; no statement below
  is about such a string.
\<close>

definition digit_val :: "char \<Rightarrow> int option" where
  "digit_val c = (let n = (of_char c :: nat) in if 48 \<le> n \<and> n \<le> 57 then Some (int n - 48) else None)"

fun parse_digits_acc :: "int \<Rightarrow> string \<Rightarrow> int option" where
  "parse_digits_acc acc [] = Some acc"
| "parse_digits_acc acc (c # cs) =
     (case digit_val c of None \<Rightarrow> None | Some d \<Rightarrow> parse_digits_acc (acc * 10 + d) cs)"

definition parse_digits :: "string \<Rightarrow> int option" where
  "parse_digits s = (if s = [] then None else parse_digits_acc 0 s)"

definition parse_isoformat_date :: "string \<Rightarrow> (int \<times> int \<times> int) option" where
  "parse_isoformat_date s =
     (if length s = 10 \<and> s ! 4 = CHR ''-'' \<and> s ! 7 = CHR ''-''
      then do {
        y \<leftarrow> parse_digits (take 4 s);
        m \<leftarrow> parse_digits (take 2 (drop 5 s));
        d \<leftarrow> parse_digits (take 2 (drop 8 s));
        Some (y, m, d) }
      else None)"

definition parse_hh_mm_ss_ff :: "string \<Rightarrow> (int \<times> int \<times> int \<times> int) option" where
  "parse_hh_mm_ss_ff t =
     (let n = length t in
      if n = 2 then do { h \<leftarrow> parse_digits t; Some (h, 0, 0, 0) }
      else if n = 5 \<and> t ! 2 = CHR '':'' then do {
        h \<leftarrow> parse_digits (take 2 t);
        m \<leftarrow> parse_digits (drop 3 t);
        Some (h, m, 0, 0) }
      else if (n = 8 \<or> n = 12 \<or> n = 15) \<and> t ! 2 = CHR '':'' \<and> t ! 5 = CHR '':'' then do {
        h \<leftarrow> parse_digits (take 2 t);
        m \<leftarrow> parse_digits (take 2 (drop 3 t));
        s \<leftarrow> parse_digits (take 2 (drop 6 t));
        if n = 8 then Some (h, m, s, 0)
        else if t ! 8 = CHR ''.'' then do {
          f \<leftarrow> parse_digits (drop 9 t);
          Some (h, m, s, if n = 12 then f * 1000 else f) }
        else None }
      else None)"

definition is_sign :: "char \<Rightarrow> bool" where
  "is_sign c = (c = CHR ''+'' \<or> c = CHR ''-'')"

text \<open>
  The time of day and the offset. The offset starts at the first sign character; it must be
  strictly between minus and plus 24 hours.
\<close>

definition parse_isoformat_time :: "string \<Rightarrow> (int \<times> int \<times> int \<times> int \<times> int option) option" where
  "parse_isoformat_time t =
     (let tstr = takeWhile (\<lambda>c. \<not> is_sign c) t;
          tzstr = dropWhile (\<lambda>c. \<not> is_sign c) t
      in do {
        (h, m, s, us) \<leftarrow> parse_hh_mm_ss_ff tstr;
        if tzstr = [] then Some (h, m, s, us, None)
        else if length tzstr = 6 \<or> length tzstr = 9 \<or> length tzstr = 16 then do {
          (zh, zm, zs, zus) \<leftarrow> parse_hh_mm_ss_ff (tl tzstr);
          let off = (if hd tzstr = CHR ''-'' then - 1 else 1)
                      * ((zh * 3600 + zm * 60 + zs) * 1000000 + zus);
          if - 86400000000 < off \<and> off < 86400000000 then Some (h, m, s, us, Some off)
          else None }
        else None })"

definition fromisoformat :: "string \<Rightarrow> datetime option" where
  "fromisoformat s =
     (if length s < 10 then None
      else do {
        (y, m, d) \<leftarrow> parse_isoformat_date (take 10 s);
        if length s = 10 then mk_datetime y m d 0 0 0 0 None
        else do {
          (hh, mm, ss, us, tz) \<leftarrow> parse_isoformat_time (drop 11 s);
          mk_datetime y m d hh mm ss us tz } })"

text \<open>\<^verbatim>\<open>s.replace('Z', '+00:00')\<close>: every occurrence.\<close>

definition replace_Z :: "string \<Rightarrow> string" where
  "replace_Z s = concat (map (\<lambda>c. if c = CHR ''Z'' then ''+00:00'' else [c]) s)"

subsection \<open>convert\_to\_canada\_central\_time\<close>

text \<open>
  The two boundaries of the source, lines 26 and 27. Both sums stay inside the year, so
  \<^verbatim>\<open>OverflowError\<close> cannot occur there; the model still passes it on.
\<close>

definition march_8 :: "int \<Rightarrow> datetime" where
  "march_8 y = \<lparr>year = y, month = 3, day = 8, hour = 0, minute = 0, second = 0,
                microsecond = 0, tzinfo = None\<rparr>"

definition november_1 :: "int \<Rightarrow> datetime" where
  "november_1 y = \<lparr>year = y, month = 11, day = 1, hour = 0, minute = 0, second = 0,
                   microsecond = 0, tzinfo = None\<rparr>"

definition dst_start :: "int \<Rightarrow> datetime option" where
  "dst_start y = datetime_add (march_8 y) (timedelta ((6 - weekday (march_8 y)) mod 7 + 7) 0)"

definition dst_end :: "int \<Rightarrow> datetime option" where
  "dst_end y = datetime_add (november_1 y) (timedelta ((6 - weekday (november_1 y)) mod 7) 0)"

text \<open>Lines 29 to 34: the offset in hours and the label.\<close>

definition in_dst :: "datetime \<Rightarrow> datetime \<Rightarrow> datetime \<Rightarrow> bool" where
  "in_dst start stop parsed_date =
     (dt_le start (replace_tzinfo_None parsed_date) \<and> dt_less (replace_tzinfo_None parsed_date) stop)"

definition offset_and_label :: "datetime \<Rightarrow> datetime \<Rightarrow> datetime \<Rightarrow> int \<times> string" where
  "offset_and_label start stop parsed_date =
     (if in_dst start stop parsed_date then (- 5, ''CDT'') else (- 6, ''CST''))"

text \<open>Lines 23 to 38 on a parsed value; \<open>None\<close> is an exception inside the \<^verbatim>\<open>try\<close>.\<close>

definition localize :: "datetime \<Rightarrow> string option" where
  "localize parsed_date = do {
     start \<leftarrow> dst_start (year parsed_date);
     stop \<leftarrow> dst_end (year parsed_date);
     let (offset_hours, timezone_label) = offset_and_label start stop parsed_date;
     central_time \<leftarrow> datetime_add parsed_date (timedelta 0 offset_hours);
     let formatted_time = lstrip (CHR ''0'') (strftime_IMp central_time);
     Some (strftime_Ymd central_time @ '' '' @ formatted_time @ '' '' @ timezone_label) }"

definition convert_to_canada_central_time :: "string \<Rightarrow> string" where
  "convert_to_canada_central_time utc_datetime_str =
     (case Option.bind (fromisoformat (replace_Z utc_datetime_str)) localize of
        Some r \<Rightarrow> r
      | None \<Rightarrow> (if 16 \<le> length utc_datetime_str then take 16 utc_datetime_str
                 else utc_datetime_str))"

section \<open>The upstream's data\<close>

text \<open>
  The program reads the JSON the upstream returns by key. The model takes that JSON to
  follow the upstream's schema: an object is a record of the keys the program reads, a JSON
  list a list, and each key is absent, \<^verbatim>\<open>null\<close>, or a value of its schema type. Objects
  that the upstream returns have at least one key (their identifier), so they are truthy.
  A value the program holds that may be \<^verbatim>\<open>None\<close> is an \<open>option\<close>.
\<close>

datatype 'a field = Absent | Null | Val 'a

record member =
  member_id :: "string field"
  fullName :: "string field"
  username :: "string field"
  displayName :: "string field"

record board =
  board_id :: "string field"
  board_name :: "string field"

record list_obj =
  list_name :: "string field"

record card =
  card_id :: "string field"
  card_name :: "string field"
  shortUrl :: "string field"
  closed :: "bool field"
  members :: "member list field"
  card_list :: "list_obj field"
  idList :: "string field"

record action_data =
  data_text :: "string field"

record action =
  action_type :: "string field"
  action_data :: "action_data field"
  memberCreator :: "member field"
  action_date :: "string field"

record check_item =
  item_name :: "string field"
  item_state :: "string field"
  idMembers :: "string list field"
  idMember :: "string field"
  due :: "string field"

record checklist =
  checkItems :: "check_item list field"

subsection \<open>Python's operations on these values\<close>

datatype exn =
  KeyError string
| TypeError
| AttributeError
| JSONDecodeError
| RequestException string

text \<open>
  \<open>RequestException\<close> is whatever \<^verbatim>\<open>requests.get\<close> raises (no connection, a timeout),
  \<open>JSONDecodeError\<close> what \<^verbatim>\<open>response.json()\<close> raises on a body that is not JSON.
\<close>

text \<open>\<^verbatim>\<open>d.get(k)\<close>, \<^verbatim>\<open>d.get(k, default)\<close>, \<^verbatim>\<open>d[k]\<close> and \<^verbatim>\<open>k in d\<close>.\<close>

definition get :: "'a field \<Rightarrow> 'a option" where
  "get f = (case f of Val v \<Rightarrow> Some v | _ \<Rightarrow> None)"

definition get_or :: "'a field \<Rightarrow> 'a \<Rightarrow> 'a option" where
  "get_or f dflt = (case f of Absent \<Rightarrow> Some dflt | Null \<Rightarrow> None | Val v \<Rightarrow> Some v)"

definition subscript :: "string \<Rightarrow> 'a field \<Rightarrow> exn + 'a option" where
  "subscript k f = (case f of Absent \<Rightarrow> Inl (KeyError k) | Null \<Rightarrow> Inr None | Val v \<Rightarrow> Inr (Some v))"

definition has_key :: "'a field \<Rightarrow> bool" where
  "has_key f = (case f of Absent \<Rightarrow> False | _ \<Rightarrow> True)"

text \<open>Truth values of a string, a Boolean and a list that may be \<^verbatim>\<open>None\<close>.\<close>

definition truthy_str :: "string option \<Rightarrow> bool" where
  "truthy_str v = (case v of None \<Rightarrow> False | Some s \<Rightarrow> s \<noteq> [])"

definition truthy_bool :: "bool option \<Rightarrow> bool" where
  "truthy_bool v = (case v of None \<Rightarrow> False | Some b \<Rightarrow> b)"

definition truthy_list :: "'a list option \<Rightarrow> bool" where
  "truthy_list v = (case v of None \<Rightarrow> False | Some xs \<Rightarrow> xs \<noteq> [])"

text \<open>\<^verbatim>\<open>a or b\<close> on strings, and \<^verbatim>\<open>a or 'literal'\<close>, whose value is never \<^verbatim>\<open>None\<close>.\<close>

definition py_or :: "string option \<Rightarrow> string option \<Rightarrow> string option" where
  "py_or a b = (if truthy_str a then a else b)"

definition or_literal :: "string option \<Rightarrow> string \<Rightarrow> string" where
  "or_literal a lit = (case a of None \<Rightarrow> lit | Some s \<Rightarrow> if s \<noteq> [] then s else lit)"

text \<open>\<^verbatim>\<open>x or []\<close> on the result of a request.\<close>

definition or_empty :: "'a list option \<Rightarrow> 'a list" where
  "or_empty v = (case v of None \<Rightarrow> [] | Some xs \<Rightarrow> xs)"

text \<open>A value inside an f-string: \<^verbatim>\<open>str(None)\<close> is \<^verbatim>\<open>'None'\<close>.\<close>

definition py_str :: "string option \<Rightarrow> string" where
  "py_str v = (case v of None \<Rightarrow> ''None'' | Some s \<Rightarrow> s)"

text \<open>\<^verbatim>\<open>sep.join(xs)\<close>; it raises \<^verbatim>\<open>TypeError\<close> on an element that is \<^verbatim>\<open>None\<close>.\<close>

fun join_str :: "string \<Rightarrow> string list \<Rightarrow> string" where
  "join_str sep [] = []"
| "join_str sep [x] = x"
| "join_str sep (x # y # ys) = x @ sep @ join_str sep (y # ys)"

definition join :: "string \<Rightarrow> string option list \<Rightarrow> exn + string" where
  "join sep xs = (if None \<in> set xs then Inl TypeError else Inr (join_str sep (map the xs)))"

text \<open>A loop whose body may raise: it stops at the first exception.\<close>

fun map_exn :: "('a \<Rightarrow> exn + 'b) \<Rightarrow> 'a list \<Rightarrow> exn + 'b list" where
  "map_exn f [] = Inr []"
| "map_exn f (x # xs) =
     (case f x of
        Inl e \<Rightarrow> Inl e
      | Inr y \<Rightarrow> (case map_exn f xs of Inl e \<Rightarrow> Inl e | Inr ys \<Rightarrow> Inr (y # ys)))"

section \<open>The upstream and the state of the process\<close>

text \<open>
  \<^verbatim>\<open>requests.get(url, params)\<close> either raises or returns a response with a status code
  and a body; \<open>None\<close> is a body that \<^verbatim>\<open>response.json()\<close> cannot decode. The upstream is a
  black box: one answer for every request and every kind of payload the program asks for.
  It answers a given request the same way throughout one \<^verbatim>\<open>/sync\<close>; between two of them it
  may change.
\<close>

record request =
  url :: string
  key_param :: string
  token_param :: string

datatype 'a reply = Raises exn | Response int "'a option"

record upstream =
  on_boards :: "request \<Rightarrow> board list reply"
  on_board_members :: "request \<Rightarrow> member list reply"
  on_cards :: "request \<Rightarrow> card list reply"
  on_member :: "request \<Rightarrow> member reply"
  on_list :: "request \<Rightarrow> list_obj reply"
  on_actions :: "request \<Rightarrow> action list reply"
  on_checklists :: "request \<Rightarrow> checklist list reply"

text \<open>
  The object \<^verbatim>\<open>TrelloAPI\<close> (lines 44 to 49), and the state a \<^verbatim>\<open>/sync\<close> runs in: the
  client it created, the module's set \<^verbatim>\<open>processed_cards\<close>, and the requests sent so far
  (a log the source does not keep; it records the effect of \<^verbatim>\<open>requests.get\<close>).
\<close>

record TrelloAPI =
  api_key :: string
  token :: string
  base_url :: string
  member_cache :: "string option \<rightharpoonup> string"
  list_cache :: "string \<rightharpoonup> string option"

record state =
  trello_api :: TrelloAPI
  processed_cards :: "string option set"
  sent :: "request list"

text \<open>
  A statement of the program maps a state to a result and the state it leaves. An exception
  leaves the state as it was when it was raised: nothing is rolled back.
\<close>

type_synonym 'a prog = "state \<Rightarrow> (exn + 'a) \<times> state"

definition returns :: "'a \<Rightarrow> 'a prog" where
  "returns v s = (Inr v, s)"

definition lift :: "exn + 'a \<Rightarrow> 'a prog" where
  "lift r s = (r, s)"

definition andthen :: "'a prog \<Rightarrow> ('a \<Rightarrow> 'b prog) \<Rightarrow> 'b prog" where
  "andthen m f s = (case m s of (Inl e, s') \<Rightarrow> (Inl e, s') | (Inr v, s') \<Rightarrow> f v s')"

primrec for_each :: "('a \<Rightarrow> 'b list prog) \<Rightarrow> 'a list \<Rightarrow> 'b list prog" where
  "for_each f [] = returns []"
| "for_each f (x # xs) =
     andthen (f x) (\<lambda>ys. andthen (for_each f xs) (\<lambda>zs. returns (ys @ zs)))"

section \<open>The client\<close>

definition TrelloAPI_init :: "string \<Rightarrow> string \<Rightarrow> TrelloAPI" where
  "TrelloAPI_init TRELLO_API_KEY TRELLO_TOKEN =
     \<lparr>api_key = TRELLO_API_KEY, token = TRELLO_TOKEN, base_url = ''https://api.trello.com/1'',
      member_cache = Map.empty, list_cache = Map.empty\<rparr>"

definition request_for :: "TrelloAPI \<Rightarrow> string \<Rightarrow> request" where
  "request_for api endpoint =
     \<lparr>url = base_url api @ endpoint, key_param = api_key api, token_param = token api\<rparr>"

text \<open>
  \<^verbatim>\<open>_make_request\<close> (lines 51 to 60). \<open>requests_get\<close> is the upstream's answer for the kind
  of payload the caller expects. There is no \<^verbatim>\<open>try\<close>: what \<^verbatim>\<open>requests.get\<close> or
  \<^verbatim>\<open>response.json()\<close> raises leaves the method.
\<close>

definition make_request :: "(request \<Rightarrow> 'a reply) \<Rightarrow> string \<Rightarrow> 'a option prog" where
  "make_request requests_get endpoint s =
     (let req = request_for (trello_api s) endpoint;
          s' = s\<lparr>sent := sent s @ [req]\<rparr>
      in case requests_get req of
           Raises e \<Rightarrow> (Inl e, s')
         | Response status_code body \<Rightarrow>
             if status_code \<noteq> 200 then (Inr None, s')
             else (case body of
                     None \<Rightarrow> (Inl JSONDecodeError, s')
                   | Some v \<Rightarrow> (Inr (Some v), s')))"

text \<open>
  \<^verbatim>\<open>fullName or username or displayName or 'Unknown'\<close> (lines 69 to 72 and 100 to 103).
\<close>

definition resolved_name :: "member \<Rightarrow> string" where
  "resolved_name m =
     or_literal (py_or (py_or (get (fullName m)) (get (username m))) (get (displayName m)))
       ''Unknown''"

definition set_member_cache :: "string option \<Rightarrow> string \<Rightarrow> state \<Rightarrow> state" where
  "set_member_cache k v s =
     s\<lparr>trello_api := (trello_api s)\<lparr>member_cache := (member_cache (trello_api s))(k \<mapsto> v)\<rparr>\<rparr>"

definition set_list_cache :: "string \<Rightarrow> string option \<Rightarrow> state \<Rightarrow> state" where
  "set_list_cache k v s =
     s\<lparr>trello_api := (trello_api s)\<lparr>list_cache := (list_cache (trello_api s))(k \<mapsto> v)\<rparr>\<rparr>"

definition get_member_name :: "upstream \<Rightarrow> string \<Rightarrow> string prog" where
  "get_member_name up mid s =
     (case member_cache (trello_api s) (Some mid) of
        Some cached \<Rightarrow> (Inr cached, s)
      | None \<Rightarrow>
          andthen (make_request (on_member up) (''/members/'' @ mid))
            (\<lambda>member_data s'.
               case member_data of
                 Some md \<Rightarrow> (Inr (resolved_name md), set_member_cache (Some mid) (resolved_name md) s')
               | None \<Rightarrow> (Inr ''Unknown'', s')) s)"

definition get_list_name :: "upstream \<Rightarrow> string \<Rightarrow> string option prog" where
  "get_list_name up lid s =
     (case list_cache (trello_api s) lid of
        Some cached \<Rightarrow> (Inr cached, s)
      | None \<Rightarrow>
          andthen (make_request (on_list up) (''/lists/'' @ lid))
            (\<lambda>list_data s'.
               case list_data of
                 Some ld \<Rightarrow>
                   (Inr (get_or (list_name ld) ''Unknown List''),
                    set_list_cache lid (get_or (list_name ld) ''Unknown List'') s')
               | None \<Rightarrow> (Inr (Some ''Unknown List''), s')) s)"

definition get_all_boards :: "upstream \<Rightarrow> board list prog" where
  "get_all_boards up =
     andthen (make_request (on_boards up) ''/members/me/boards'') (\<lambda>r. returns (or_empty r))"

text \<open>Lines 98 to 105: every member goes into the lookup and into the shared cache.\<close>

definition add_members :: "member list \<Rightarrow> (string option \<rightharpoonup> string) \<Rightarrow> (string option \<rightharpoonup> string)" where
  "add_members ms table = fold (\<lambda>m t. t(get (member_id m) \<mapsto> resolved_name m)) ms table"

definition get_board_members :: "upstream \<Rightarrow> string option \<Rightarrow> (string option \<rightharpoonup> string) prog" where
  "get_board_members up bid =
     andthen (make_request (on_board_members up) (''/boards/'' @ py_str bid @ ''/members''))
       (\<lambda>r s. (Inr (add_members (or_empty r) Map.empty),
               s\<lparr>trello_api := (trello_api s)
                   \<lparr>member_cache := add_members (or_empty r) (member_cache (trello_api s))\<rparr>\<rparr>))"

definition get_cards_on_board :: "upstream \<Rightarrow> string option \<Rightarrow> card list prog" where
  "get_cards_on_board up bid =
     andthen (make_request (on_cards up) (''/boards/'' @ py_str bid @ ''/cards?members=true&list=true''))
       (\<lambda>r. returns (or_empty r))"

text \<open>
  \<^verbatim>\<open>get_card_members\<close> (lines 114 to 121) sends nothing. Iterating \<^verbatim>\<open>None\<close> and joining a
  name that is \<^verbatim>\<open>None\<close> raise \<^verbatim>\<open>TypeError\<close>.
\<close>

definition get_card_members :: "card \<Rightarrow> exn + string" where
  "get_card_members c =
     (case get_or (members c) [] of
        None \<Rightarrow> Inl TypeError
      | Some ms \<Rightarrow>
          (let member_names = map (\<lambda>m. py_or (get (fullName m)) (get_or (username m) ''Unknown'')) ms
           in if member_names \<noteq> [] then join '', '' member_names else Inr []))"

text \<open>
  \<^verbatim>\<open>get_card_activity\<close> (lines 123 to 135). \<^verbatim>\<open>.get\<close> on \<^verbatim>\<open>None\<close> raises
  \<^verbatim>\<open>AttributeError\<close>, a slice of \<^verbatim>\<open>None\<close> raises \<^verbatim>\<open>TypeError\<close>.
\<close>

definition comment_line :: "action \<Rightarrow> exn + string" where
  "comment_line a =
     (case get_or (action_data a) \<lparr>data_text = Absent\<rparr> of
        None \<Rightarrow> Inl AttributeError
      | Some d \<Rightarrow>
          (let comment_text = get_or (data_text d) [] in
           case get_or (memberCreator a)
                  \<lparr>member_id = Absent, fullName = Absent, username = Absent, displayName = Absent\<rparr> of
             None \<Rightarrow> Inl AttributeError
           | Some mc \<Rightarrow>
               (let member_name = get_or (fullName mc) ''Unknown'' in
                case get_or (action_date a) [] of
                  None \<Rightarrow> Inl TypeError
                | Some dt \<Rightarrow>
                    Inr (py_str member_name @ '' ('' @ take 10 dt @ ''): '' @ py_str comment_text))))"

definition get_card_activity :: "upstream \<Rightarrow> string option \<Rightarrow> string prog" where
  "get_card_activity up cid =
     andthen (make_request (on_actions up) (''/cards/'' @ py_str cid @ ''/actions?filter=commentCard''))
       (\<lambda>r. lift
          (case map_exn comment_line
                  (filter (\<lambda>a. get (action_type a) = Some ''commentCard'') (or_empty r)) of
             Inl e \<Rightarrow> Inl e
           | Inr comments \<Rightarrow> Inr (if comments \<noteq> [] then join_str [CHR 0x0A] comments else [])))"

text \<open>
  \<^verbatim>\<open>get_checklist_items_detailed\<close> (lines 137 to 174). One entry of its result is the
  dictionary of lines 167 to 172.
\<close>

record checklist_entry =
  entry_name :: "string option"
  entry_status :: string
  entry_assigned_to :: string
  entry_due_date :: "string option"

definition assignee_ids :: "check_item \<Rightarrow> string list" where
  "assignee_ids item =
     (if has_key (idMembers item) \<and> truthy_list (get (idMembers item)) then the (get (idMembers item))
      else if has_key (idMember item) \<and> truthy_str (get (idMember item)) then [the (get (idMember item))]
      else [])"

definition assigned_names :: "(string option \<rightharpoonup> string) \<Rightarrow> string list \<Rightarrow> string" where
  "assigned_names member_lookup ids =
     (if ids \<noteq> []
      then join_str '', '' (map (\<lambda>i. the (member_lookup (Some i)))
                              (filter (\<lambda>i. member_lookup (Some i) \<noteq> None) ids))
      else [])"

definition localized_due :: "check_item \<Rightarrow> string option" where
  "localized_due item =
     (let due_date = get_or (due item) [] in
      if truthy_str due_date then Some (convert_to_canada_central_time (the due_date))
      else due_date)"

definition checklist_entry_of :: "(string option \<rightharpoonup> string) \<Rightarrow> check_item \<Rightarrow> exn + checklist_entry" where
  "checklist_entry_of member_lookup item =
     (case subscript ''name'' (item_name item) of
        Inl e \<Rightarrow> Inl e
      | Inr nm \<Rightarrow>
          (case subscript ''state'' (item_state item) of
             Inl e \<Rightarrow> Inl e
           | Inr st \<Rightarrow>
               Inr \<lparr>entry_name = nm,
                    entry_status = (if st = Some ''complete'' then ''Complete'' else ''Pending''),
                    entry_assigned_to = assigned_names member_lookup (assignee_ids item),
                    entry_due_date = localized_due item\<rparr>))"

definition entries_of_checklist :: "(string option \<rightharpoonup> string) \<Rightarrow> checklist \<Rightarrow> exn + checklist_entry list" where
  "entries_of_checklist member_lookup cl =
     (case get_or (checkItems cl) [] of
        None \<Rightarrow> Inl TypeError
      | Some items \<Rightarrow> map_exn (checklist_entry_of member_lookup) items)"

definition get_checklist_items_detailed ::
  "upstream \<Rightarrow> string option \<Rightarrow> (string option \<rightharpoonup> string) \<Rightarrow> checklist_entry list prog" where
  "get_checklist_items_detailed up cid member_lookup =
     andthen (make_request (on_checklists up) (''/cards/'' @ py_str cid @ ''/checklists''))
       (\<lambda>r. lift
          (case map_exn (entries_of_checklist member_lookup) (or_empty r) of
             Inl e \<Rightarrow> Inl e
           | Inr per_checklist \<Rightarrow> Inr (concat per_checklist)))"

section \<open>The flatten pass and the endpoint /sync\<close>

text \<open>The dictionary of lines 240 to 252.\<close>

record TaskRecord =
  Client_Name :: "string option"
  Project_Name :: "string option"
  Status :: "string option"
  Assigned_To :: string
  Step :: "string option"
  Step_Assigned_To :: string
  Step_Status :: string
  Due_Date :: "string option"
  Trello_Card_Link :: "string option"
  Comment :: string
  Notes :: string

definition task_record ::
  "string option \<Rightarrow> string option \<Rightarrow> string option \<Rightarrow> string \<Rightarrow> string option \<Rightarrow> string \<Rightarrow>
   checklist_entry \<Rightarrow> TaskRecord" where
  "task_record board_nm card_nm list_nm card_members card_url card_activity item =
     \<lparr>Client_Name = board_nm, Project_Name = card_nm, Status = list_nm,
      Assigned_To = card_members, Step = entry_name item,
      Step_Assigned_To = entry_assigned_to item, Step_Status = entry_status item,
      Due_Date = entry_due_date item, Trello_Card_Link = card_url, Comment = card_activity,
      Notes = []\<rparr>"

text \<open>
  What \<^verbatim>\<open>/sync\<close> answers: the status code and the JSON body, which is an error message,
  the text \<^verbatim>\<open>str(e)\<close> of an exception \<open>e\<close>, or the success object with its timestamp,
  \<^verbatim>\<open>total_tasks\<close> and \<^verbatim>\<open>tasks\<close>.
\<close>

datatype body =
  ErrorMessage string
| ErrorOf exn
| Success string nat "TaskRecord list"

record response =
  http_status :: int
  http_body :: body

text \<open>Lines 225 to 229: the name of the card's list.\<close>

definition card_list_name :: "upstream \<Rightarrow> card \<Rightarrow> string option prog" where
  "card_list_name up c =
     (case card_list c of
        Val l \<Rightarrow> returns (get_or (list_name l) ''Unknown List'')
      | _ \<Rightarrow>
          if truthy_str (get (idList c)) then get_list_name up (the (get (idList c)))
          else returns (Some ''Unknown List''))"

text \<open>
  The body of the loop over the cards. Lines 221 to 256 are what happens to a card that is
  not in \<^verbatim>\<open>processed_cards\<close>; the value is the records the card appends to
  \<^verbatim>\<open>all_tasks\<close>.
\<close>

definition card_records ::
  "upstream \<Rightarrow> string option \<Rightarrow> (string option \<rightharpoonup> string) \<Rightarrow> card \<Rightarrow>
   string option \<Rightarrow> string option \<Rightarrow> string option \<Rightarrow> TaskRecord list prog" where
  "card_records up board_nm member_lookup c cid card_nm card_url =
     andthen (lift (get_card_members c)) (\<lambda>card_members.
     andthen (card_list_name up c) (\<lambda>list_nm.
     andthen (get_card_activity up cid) (\<lambda>card_activity.
     andthen (get_checklist_items_detailed up cid member_lookup) (\<lambda>checklist_items s'.
       (Inr (if checklist_items \<noteq> []
             then map (task_record board_nm card_nm list_nm card_members card_url card_activity)
                    checklist_items
             else []),
        s'\<lparr>processed_cards := insert cid (processed_cards s')\<rparr>)))))"

text \<open>Lines 213 to 219, then the above: a card that was processed is skipped.\<close>

definition process_card ::
  "upstream \<Rightarrow> string option \<Rightarrow> (string option \<rightharpoonup> string) \<Rightarrow> card \<Rightarrow> TaskRecord list prog" where
  "process_card up board_nm member_lookup c =
     andthen (lift (subscript ''id'' (card_id c))) (\<lambda>cid.
     andthen (lift (subscript ''name'' (card_name c))) (\<lambda>card_nm.
     andthen (lift (subscript ''shortUrl'' (shortUrl c))) (\<lambda>card_url s.
       if cid \<in> processed_cards s then (Inr [], s)
       else card_records up board_nm member_lookup c cid card_nm card_url s)))"

text \<open>Line 209: the cards that are not archived.\<close>

definition active_cards :: "card list \<Rightarrow> card list" where
  "active_cards all_cards = filter (\<lambda>c. \<not> truthy_bool (get_or (closed c) False)) all_cards"

text \<open>The body of the loop over the boards, lines 199 to 256.\<close>

definition process_board :: "upstream \<Rightarrow> board \<Rightarrow> TaskRecord list prog" where
  "process_board up b =
     andthen (lift (subscript ''id'' (board_id b))) (\<lambda>bid.
     andthen (lift (subscript ''name'' (board_name b))) (\<lambda>board_nm.
     andthen (get_board_members up bid) (\<lambda>member_lookup.
     andthen (get_cards_on_board up bid) (\<lambda>all_cards.
       for_each (process_card up board_nm member_lookup) (active_cards all_cards)))))"

text \<open>
  The \<^verbatim>\<open>try\<close> block of \<^verbatim>\<open>sync_trello\<close>, lines 188 to 264, from the state in which the
  client has just been created. \<open>now\<close> is \<^verbatim>\<open>datetime.now().isoformat()\<close>.
\<close>

definition flatten :: "upstream \<Rightarrow> string \<Rightarrow> response prog" where
  "flatten up now =
     andthen (get_all_boards up) (\<lambda>boards.
       if boards = [] then returns \<lparr>http_status = 404, http_body = ErrorMessage ''No boards found''\<rparr>
       else
         andthen (for_each (process_board up) boards) (\<lambda>all_tasks.
           returns \<lparr>http_status = 200, http_body = Success now (length all_tasks) all_tasks\<rparr>))"

text \<open>
  The configuration, lines 16 and 17: \<^verbatim>\<open>os.getenv\<close> with its default. The environment
  maps a variable that is set to its value.
\<close>

definition getenv :: "(string \<rightharpoonup> string) \<Rightarrow> string \<Rightarrow> string \<Rightarrow> string" where
  "getenv env k dflt = (case env k of None \<Rightarrow> dflt | Some v \<Rightarrow> v)"

definition TRELLO_API_KEY :: "(string \<rightharpoonup> string) \<Rightarrow> string" where
  "TRELLO_API_KEY env = getenv env ''TRELLO_API_KEY'' ''your_api_key_here''"

definition TRELLO_TOKEN :: "(string \<rightharpoonup> string) \<Rightarrow> string" where
  "TRELLO_TOKEN env = getenv env ''TRELLO_TOKEN'' ''your_token_here''"

text \<open>
  The state in which the \<^verbatim>\<open>try\<close> block starts: line 188 creates the client anew, the
  set \<^verbatim>\<open>processed_cards\<close> is the module's.
\<close>

definition start_state :: "(string \<rightharpoonup> string) \<Rightarrow> string option set \<Rightarrow> state" where
  "start_state env pc =
     \<lparr>trello_api = TrelloAPI_init (TRELLO_API_KEY env) (TRELLO_TOKEN env),
      processed_cards = pc, sent = []\<rparr>"

text \<open>
  \<^verbatim>\<open>sync_trello\<close> (lines 180 to 267) in a process whose set \<^verbatim>\<open>processed_cards\<close> is
  \<open>pc\<close>: the response, the set afterwards, and the requests that were sent.
\<close>

definition sync_trello ::
  "(string \<rightharpoonup> string) \<Rightarrow> upstream \<Rightarrow> string \<Rightarrow> string option set \<Rightarrow>
   response \<times> string option set \<times> request list" where
  "sync_trello env up now pc =
     (if TRELLO_API_KEY env = ''your_api_key_here'' \<or> TRELLO_TOKEN env = ''your_token_here''
      then (\<lparr>http_status = 400, http_body = ErrorMessage ''API credentials not set''\<rparr>, pc, [])
      else
        (case flatten up now (start_state env pc) of
           (Inr resp, s) \<Rightarrow> (resp, processed_cards s, sent s)
         | (Inl e, s) \<Rightarrow> (\<lparr>http_status = 500, http_body = ErrorOf e\<rparr>, processed_cards s, sent s)))"

text \<open>
  A process that serves several \<^verbatim>\<open>/sync\<close> requests one after the other, each with the
  upstream and the clock of its moment: the responses and the final set.
\<close>

fun serve ::
  "(string \<rightharpoonup> string) \<Rightarrow> (upstream \<times> string) list \<Rightarrow> string option set \<Rightarrow>
   response list \<times> string option set" where
  "serve env [] pc = ([], pc)"
| "serve env ((up, now) # rest) pc =
     (case sync_trello env up now pc of
        (resp, pc', log) \<Rightarrow>
          (case serve env rest pc' of (resps, pc'') \<Rightarrow> (resp # resps, pc'')))"

section \<open>The calendar in the specification's words\<close>

text \<open>
  The Sundays of a month, in order: the days of the month whose weekday is Sunday (6 in
  Python's count from Monday). The specification names the second Sunday of March and the
  first Sunday of November.
\<close>

definition sundays_of :: "int \<Rightarrow> int \<Rightarrow> int list" where
  "sundays_of y m = filter (\<lambda>d. (ymd2ord y m d + 6) mod 7 = 6) [1..days_in_month y m]"

definition second_sunday_of_march :: "int \<Rightarrow> int" where
  "second_sunday_of_march y = sundays_of y 3 ! 1"

definition first_sunday_of_november :: "int \<Rightarrow> int" where
  "first_sunday_of_november y = sundays_of y 11 ! 0"

section \<open>What a step keeps\<close>

text \<open>
  The part of the client that no method writes, and two relations between the state before
  and after a step: \<open>grows\<close> (the configuration is the same, the set of processed cards
  and the keys of the member cache have only gained elements, the entries of the list cache
  are still there) and \<open>keeps\<close> (the same, and the set of processed cards is unchanged).
\<close>

definition config :: "state \<Rightarrow> string \<times> string \<times> string" where
  "config s = (api_key (trello_api s), token (trello_api s), base_url (trello_api s))"

definition grows :: "state \<Rightarrow> state \<Rightarrow> bool" where
  "grows s s' \<longleftrightarrow>
     config s' = config s \<and> processed_cards s \<subseteq> processed_cards s' \<and>
     list_cache (trello_api s) \<subseteq>\<^sub>m list_cache (trello_api s') \<and>
     dom (member_cache (trello_api s)) \<subseteq> dom (member_cache (trello_api s'))"

definition keeps :: "state \<Rightarrow> state \<Rightarrow> bool" where
  "keeps s s' \<longleftrightarrow> grows s s' \<and> processed_cards s' = processed_cards s"

text \<open>A statement all of whose runs, completed or not, are related by \<open>grows\<close>.\<close>

definition growing :: "'a prog \<Rightarrow> bool" where
  "growing m \<longleftrightarrow> (\<forall>s r s'. m s = (r, s') \<longrightarrow> grows s s')"

section \<open>Example data\<close>

text \<open>
  A process with credentials, and an upstream with one board, one member and three cards:
  the first has two checklist items, the second has an empty checklist and no embedded
  list, the third is archived.
\<close>

definition ex_env :: "string \<rightharpoonup> string" where
  "ex_env = [''TRELLO_API_KEY'' \<mapsto> ''key-1'', ''TRELLO_TOKEN'' \<mapsto> ''token-1'']"

definition ex_member :: member where
  "ex_member = \<lparr>member_id = Val ''m1'', fullName = Val ''Alice'', username = Val ''alice'',
                displayName = Absent\<rparr>"

definition ex_board :: board where
  "ex_board = \<lparr>board_id = Val ''b1'', board_name = Val ''Acme''\<rparr>"

definition ex_card1 :: card where
  "ex_card1 = \<lparr>card_id = Val ''c1'', card_name = Val ''Website'',
               shortUrl = Val ''https://trello.com/c/1'', closed = Val False,
               members = Val [ex_member], card_list = Val \<lparr>list_name = Val ''Doing''\<rparr>,
               idList = Val ''l1''\<rparr>"

definition ex_card2 :: card where
  "ex_card2 = \<lparr>card_id = Val ''c2'', card_name = Val ''Invoice'',
               shortUrl = Val ''https://trello.com/c/2'', closed = Val False,
               members = Val [], card_list = Absent, idList = Val ''l2''\<rparr>"

definition ex_card3 :: card where
  "ex_card3 = \<lparr>card_id = Val ''c3'', card_name = Val ''Old'',
               shortUrl = Val ''https://trello.com/c/3'', closed = Val True,
               members = Val [], card_list = Absent, idList = Val ''l2''\<rparr>"

definition ex_item1 :: check_item where
  "ex_item1 = \<lparr>item_name = Val ''Design'', item_state = Val ''complete'',
               idMembers = Absent, idMember = Val ''m1'', due = Val ''2024-07-04T18:00:00.000Z''\<rparr>"

definition ex_item2 :: check_item where
  "ex_item2 = \<lparr>item_name = Val ''Build'', item_state = Val ''incomplete'',
               idMembers = Absent, idMember = Null, due = Null\<rparr>"

definition ex_action :: action where
  "ex_action = \<lparr>action_type = Val ''commentCard'', action_data = Val \<lparr>data_text = Val ''Looks good''\<rparr>,
                memberCreator = Val ex_member, action_date = Val ''2024-07-01T09:30:00.000Z''\<rparr>"

definition at :: "string \<Rightarrow> 'a \<Rightarrow> request \<Rightarrow> 'a reply \<Rightarrow> 'a reply" where
  "at endpoint v req otherwise =
     (if url req = ''https://api.trello.com/1'' @ endpoint then Response 200 (Some v) else otherwise)"

definition ex_up :: upstream where
  "ex_up =
     \<lparr>on_boards = (\<lambda>req. at ''/members/me/boards'' [ex_board] req (Response 404 None)),
      on_board_members = (\<lambda>req. at ''/boards/b1/members'' [ex_member] req (Response 404 None)),
      on_cards = (\<lambda>req. at ''/boards/b1/cards?members=true&list=true''
                           [ex_card1, ex_card2, ex_card3] req (Response 404 None)),
      on_member = (\<lambda>req. Response 404 None),
      on_list = (\<lambda>req. at ''/lists/l2'' \<lparr>list_name = Val ''Todo''\<rparr> req (Response 404 None)),
      on_actions = (\<lambda>req. at ''/cards/c1/actions?filter=commentCard'' [ex_action] req
                             (Response 200 (Some []))),
      on_checklists = (\<lambda>req. at ''/cards/c1/checklists'' [\<lparr>checkItems = Val [ex_item1, ex_item2]\<rparr>]
                                req (Response 200 (Some [\<lparr>checkItems = Val []\<rparr>])))\<rparr>"

text \<open>
  Upstreams that fail: one that answers every request with status 401, one where every
  request raises, one with no boards, and one that differs from \<open>ex_up\<close> only in that the
  request for the comments of the second card raises.
\<close>

definition ex_up_rejecting :: upstream where
  "ex_up_rejecting =
     \<lparr>on_boards = (\<lambda>req. Response 401 None), on_board_members = (\<lambda>req. Response 401 None),
      on_cards = (\<lambda>req. Response 401 None), on_member = (\<lambda>req. Response 401 None),
      on_list = (\<lambda>req. Response 401 None), on_actions = (\<lambda>req. Response 401 None),
      on_checklists = (\<lambda>req. Response 401 None)\<rparr>"

definition ex_up_down :: upstream where
  "ex_up_down =
     \<lparr>on_boards = (\<lambda>req. Raises (RequestException ''connection refused'')),
      on_board_members = (\<lambda>req. Raises (RequestException ''connection refused'')),
      on_cards = (\<lambda>req. Raises (RequestException ''connection refused'')),
      on_member = (\<lambda>req. Raises (RequestException ''connection refused'')),
      on_list = (\<lambda>req. Raises (RequestException ''connection refused'')),
      on_actions = (\<lambda>req. Raises (RequestException ''connection refused'')),
      on_checklists = (\<lambda>req. Raises (RequestException ''connection refused''))\<rparr>"

definition ex_up_no_boards :: upstream where
  "ex_up_no_boards = ex_up\<lparr>on_boards := (\<lambda>req. Response 200 (Some []))\<rparr>"

definition ex_up_failing :: upstream where
  "ex_up_failing =
     ex_up\<lparr>on_actions := (\<lambda>req. at ''/cards/c1/actions?filter=commentCard'' [ex_action] req
                                   (Raises (RequestException ''timed out'')))\<rparr>"

text \<open>
  The upstream at a later time: the board has one new card in the list \<open>l2\<close>, and that
  list has been renamed.
\<close>

definition ex_card4 :: card where
  "ex_card4 = \<lparr>card_id = Val ''c4'', card_name = Val ''Report'',
               shortUrl = Val ''https://trello.com/c/4'', closed = Val False,
               members = Val [], card_list = Absent, idList = Val ''l2''\<rparr>"

definition ex_up_later :: upstream where
  "ex_up_later =
     ex_up\<lparr>on_cards := (\<lambda>req. at ''/boards/b1/cards?members=true&list=true'' [ex_card4] req
                                 (Response 404 None)),
           on_list := (\<lambda>req. at ''/lists/l2'' \<lparr>list_name = Val ''Done''\<rparr> req (Response 404 None)),
           on_checklists := (\<lambda>req. at ''/cards/c4/checklists'' [\<lparr>checkItems = Val [ex_item2]\<rparr>]
                                      req (Response 200 (Some [])))\<rparr>"

text \<open>
  The lookup of the example board, and the two records the first example card gives.
\<close>

definition ex_lookup :: "string option \<rightharpoonup> string" where
  "ex_lookup = [Some ''m1'' \<mapsto> ''Alice'']"

definition ex_records :: "TaskRecord list" where
  "ex_records =
     [\<lparr>Client_Name = Some ''Acme'', Project_Name = Some ''Website'', Status = Some ''Doing'',
       Assigned_To = ''Alice'', Step = Some ''Design'', Step_Assigned_To = ''Alice'',
       Step_Status = ''Complete'', Due_Date = Some ''2024-07-04 1:00 PM CDT'',
       Trello_Card_Link = Some ''https://trello.com/c/1'',
       Comment = ''Alice (2024-07-01): Looks good'', Notes = []\<rparr>,
      \<lparr>Client_Name = Some ''Acme'', Project_Name = Some ''Website'', Status = Some ''Doing'',
       Assigned_To = ''Alice'', Step = Some ''Build'', Step_Assigned_To = [],
       Step_Status = ''Pending'', Due_Date = None,
       Trello_Card_Link = Some ''https://trello.com/c/1'',
       Comment = ''Alice (2024-07-01): Looks good'', Notes = []\<rparr>]"

text \<open>A state in which a list name and a member name are cached.\<close>

definition ex_state_cached :: state where
  "ex_state_cached =
     set_list_cache ''l2'' (Some ''Todo'')
       (set_member_cache (Some ''m1'') ''Alice'' (start_state ex_env {}))"

section \<open>Notions the statements use\<close>

text \<open>The tasks a response carries.\<close>

definition tasks_of :: "response \<Rightarrow> TaskRecord list" where
  "tasks_of resp = (case http_body resp of Success ts n tasks \<Rightarrow> tasks | _ \<Rightarrow> [])"

text \<open>A reply with a status other than 200.\<close>

definition non_success :: "'a reply \<Rightarrow> bool" where
  "non_success r = (case r of Raises e \<Rightarrow> False | Response status_code body \<Rightarrow> status_code \<noteq> 200)"

text \<open>
  The checklist items the upstream lists for a card: those of every checklist in its answer
  to the request of line 139, none when that request does not succeed.
\<close>

definition checklist_items_of :: "upstream \<Rightarrow> TrelloAPI \<Rightarrow> string option \<Rightarrow> check_item list" where
  "checklist_items_of up api cid =
     (case on_checklists up (request_for api (''/cards/'' @ py_str cid @ ''/checklists'')) of
        Raises e \<Rightarrow> []
      | Response status_code body \<Rightarrow>
          if status_code = 200
          then concat (map (\<lambda>cl. or_empty (get (checkItems cl))) (or_empty body))
          else [])"

section \<open>Properties\<close>

subsection \<open>Timestamps\<close>

text \<open>
  C8: the localizer maps \<^verbatim>\<open>2024-07-04T18:00:00Z\<close> to \<^verbatim>\<open>2024-07-04 1:00 PM CDT\<close> and
  \<^verbatim>\<open>2024-01-04T18:00:00Z\<close> to \<^verbatim>\<open>2024-01-04 12:00 PM CST\<close>: the date, the hour of the
  12-hour clock without its leading zero, the minutes, AM or PM, and the label.
\<close>

theorem C8_localizer_examples:
  "convert_to_canada_central_time ''2024-07-04T18:00:00Z'' = ''2024-07-04 1:00 PM CDT'' \<and>
   convert_to_canada_central_time ''2024-01-04T18:00:00Z'' = ''2024-01-04 12:00 PM CST''"
  by code_simp

text \<open>
  In every year the start that line 26 computes lies 7 to 13 days after March 8, that is
  between March 15 and March 21, and it is a Sunday: the third Sunday of March. The second
  Sunday lies between March 8 and March 14.
\<close>

lemma dst_start_third_sunday:
  fixes y :: int
  defines "k \<equiv> (6 - weekday (march_8 y)) mod 7 + 7"
  shows "dst_start y = datetime_add (march_8 y) (timedelta k 0)"
    and "7 \<le> k" and "k \<le> 13"
    and "(toordinal (march_8 y) + k + 6) mod 7 = 6"
proof -
  show "dst_start y = datetime_add (march_8 y) (timedelta k 0)"
    by (simp add: dst_start_def k_def)
  show "7 \<le> k" "k \<le> 13"
    by (simp_all add: k_def)
  show "(toordinal (march_8 y) + k + 6) mod 7 = 6"
    unfolding k_def weekday_def by presburger
qed

text \<open>
  C1: in 2024 the second Sunday of March is the 10th, and the first Sunday of November the
  3rd. The start the source computes is the 17th, the third Sunday: line 26 starts from
  March 8, the earliest second Sunday, moves to the next Sunday and then adds a further
  week. So Tuesday March 12, 18:00, which lies between the second Sunday of March
  and the first Sunday of November, is converted with minus six hours and the label CST.
\<close>

theorem C1_second_week_of_march_is_CST:
  "second_sunday_of_march 2024 = 10 \<and>
   first_sunday_of_november 2024 = 3 \<and>
   dst_start 2024 = Some ((march_8 2024)\<lparr>day := 17\<rparr>) \<and>
   dst_end 2024 = Some ((november_1 2024)\<lparr>day := 3\<rparr>) \<and>
   convert_to_canada_central_time ''2024-03-12T18:00:00Z'' = ''2024-03-12 12:00 PM CST''"
  by code_simp

subsection \<open>Sequencing and requests\<close>

lemma andthen_Inr: "m s = (Inr v, s') \<Longrightarrow> andthen m f s = f v s'"
  by (simp add: andthen_def)

lemma andthen_Inl: "m s = (Inl e, s') \<Longrightarrow> andthen m f s = (Inl e, s')"
  by (simp add: andthen_def)

lemma andthen_InrE:
  assumes "andthen m f s = (Inr w, s'')"
  obtains v s' where "m s = (Inr v, s')" and "f v s' = (Inr w, s'')"
  using assms by (auto simp: andthen_def split: prod.splits sum.splits)

lemma andthen_cases:
  assumes "andthen m f s = (r, s'')"
  obtains (first) e where "m s = (Inl e, s'')" and "r = Inl e"
        | (second) v s' where "m s = (Inr v, s')" and "f v s' = (r, s'')"
  using assms by (auto simp: andthen_def split: prod.splits sum.splits)

text \<open>Whatever the upstream answers, a request is sent and nothing else changes.\<close>

lemma make_request_state:
  assumes "make_request g endpoint s = (r, s')"
  shows "s' = s\<lparr>sent := sent s @ [request_for (trello_api s) endpoint]\<rparr>"
  using assms by (auto simp: make_request_def Let_def split: reply.splits if_splits option.splits)

lemma make_request_non_success:
  "non_success (g (request_for (trello_api s) endpoint)) \<Longrightarrow>
   make_request g endpoint s = (Inr None, s\<lparr>sent := sent s @ [request_for (trello_api s) endpoint]\<rparr>)"
  by (auto simp: make_request_def non_success_def Let_def split: reply.splits)

lemma make_request_Raises:
  "g (request_for (trello_api s) endpoint) = Raises e \<Longrightarrow>
   make_request g endpoint s = (Inl e, s\<lparr>sent := sent s @ [request_for (trello_api s) endpoint]\<rparr>)"
  by (auto simp: make_request_def Let_def)

lemma ex_env_key: "TRELLO_API_KEY ex_env = ''key-1''" "TRELLO_TOKEN ex_env = ''token-1''"
  by (simp_all add: TRELLO_API_KEY_def TRELLO_TOKEN_def getenv_def ex_env_def)

subsection \<open>Credentials\<close>

text \<open>
  C7: when the API key or the token is unset, or set to its placeholder, \<^verbatim>\<open>/sync\<close> answers
  400 with the error \<^verbatim>\<open>API credentials not set\<close>; no request is sent and the set of
  processed cards is unchanged.
\<close>

theorem C7_missing_credentials:
  assumes "env ''TRELLO_API_KEY'' = None \<or> env ''TRELLO_API_KEY'' = Some ''your_api_key_here'' \<or>
           env ''TRELLO_TOKEN'' = None \<or> env ''TRELLO_TOKEN'' = Some ''your_token_here''"
  shows "sync_trello env up now pc =
           (\<lparr>http_status = 400, http_body = ErrorMessage ''API credentials not set''\<rparr>, pc, [])"
  using assms by (auto simp: sync_trello_def TRELLO_API_KEY_def TRELLO_TOKEN_def getenv_def)

theorem C7_missing_credentials_witness:
  "[''TRELLO_API_KEY'' \<mapsto> ''key-1''] ''TRELLO_TOKEN'' = None \<and>
   sync_trello [''TRELLO_API_KEY'' \<mapsto> ''key-1''] ex_up ''2024-07-05T10:00:00'' {Some ''c9''} =
     (\<lparr>http_status = 400, http_body = ErrorMessage ''API credentials not set''\<rparr>, {Some ''c9''}, [])"
  using C7_missing_credentials [of "[''TRELLO_API_KEY'' \<mapsto> ''key-1'']" ex_up "''2024-07-05T10:00:00''" "{Some ''c9''}"]
  by simp

lemma get_all_boards_non_success:
  "non_success (on_boards up (request_for (trello_api s) ''/members/me/boards'')) \<Longrightarrow>
   get_all_boards up s = (Inr [], s\<lparr>sent := sent s @ [request_for (trello_api s) ''/members/me/boards'']\<rparr>)"
  by (simp add: get_all_boards_def andthen_def make_request_non_success returns_def or_empty_def)

text \<open>
  C10: with credentials that are set but that the upstream rejects (it answers the request
  for the boards with a status other than 200), \<^verbatim>\<open>get_all_boards\<close> returns the empty list
  and \<^verbatim>\<open>/sync\<close> answers 404 with \<^verbatim>\<open>No boards found\<close> after that one request. An upstream
  that answers 200 with no boards gets the same response, the same set and the same log.
\<close>

theorem C10_rejected_credentials_look_like_no_boards:
  assumes key: "TRELLO_API_KEY env \<noteq> ''your_api_key_here''"
      and tok: "TRELLO_TOKEN env \<noteq> ''your_token_here''"
      and rejected: "\<And>req. non_success (on_boards up req)"
      and empty: "\<And>req. on_boards up' req = Response 200 (Some [])"
  shows "fst (get_all_boards up (start_state env pc)) = Inr [] \<and>
         sync_trello env up now pc =
           (\<lparr>http_status = 404, http_body = ErrorMessage ''No boards found''\<rparr>, pc,
            [request_for (trello_api (start_state env pc)) ''/members/me/boards'']) \<and>
         sync_trello env up' now pc = sync_trello env up now pc"
proof -
  let ?s = "start_state env pc"
  let ?req = "request_for (trello_api ?s) ''/members/me/boards''"
  have a: "get_all_boards up ?s = (Inr [], ?s\<lparr>sent := sent ?s @ [?req]\<rparr>)"
    by (rule get_all_boards_non_success) (rule rejected)
  have b: "get_all_boards up' ?s = (Inr [], ?s\<lparr>sent := sent ?s @ [?req]\<rparr>)"
    by (simp add: get_all_boards_def andthen_def make_request_def empty returns_def or_empty_def)
  have c: "flatten up now ?s =
             (Inr \<lparr>http_status = 404, http_body = ErrorMessage ''No boards found''\<rparr>,
              ?s\<lparr>sent := sent ?s @ [?req]\<rparr>)"
    by (simp add: flatten_def andthen_def a returns_def)
  have d: "flatten up' now ?s =
             (Inr \<lparr>http_status = 404, http_body = ErrorMessage ''No boards found''\<rparr>,
              ?s\<lparr>sent := sent ?s @ [?req]\<rparr>)"
    by (simp add: flatten_def andthen_def b returns_def)
  have e: "processed_cards ?s = pc" "sent ?s = []"
    by (simp_all add: start_state_def)
  have f: "sync_trello env up now pc =
             (\<lparr>http_status = 404, http_body = ErrorMessage ''No boards found''\<rparr>, pc, [?req])"
    using key tok by (simp add: sync_trello_def c e)
  have g: "sync_trello env up' now pc =
             (\<lparr>http_status = 404, http_body = ErrorMessage ''No boards found''\<rparr>, pc, [?req])"
    using key tok by (simp add: sync_trello_def d e)
  show ?thesis
    by (simp add: a f g)
qed

theorem C10_rejected_credentials_witness:
  "TRELLO_API_KEY ex_env \<noteq> ''your_api_key_here'' \<and> TRELLO_TOKEN ex_env \<noteq> ''your_token_here'' \<and>
   on_boards ex_up_rejecting = (\<lambda>req. Response 401 None) \<and>
   fst (get_all_boards ex_up_rejecting (start_state ex_env {})) = Inr [] \<and>
   fst (sync_trello ex_env ex_up_rejecting ''2024-07-05T10:00:00'' {}) =
     \<lparr>http_status = 404, http_body = ErrorMessage ''No boards found''\<rparr> \<and>
   sync_trello ex_env ex_up_no_boards ''2024-07-05T10:00:00'' {} =
     sync_trello ex_env ex_up_rejecting ''2024-07-05T10:00:00'' {}"
  using C10_rejected_credentials_look_like_no_boards
          [of ex_env ex_up_rejecting ex_up_no_boards "{}" "''2024-07-05T10:00:00''"]
  by (simp add: ex_env_key ex_up_rejecting_def ex_up_no_boards_def non_success_def)

subsection \<open>Failed upstream calls\<close>

lemma get_all_boards_Raises:
  "on_boards up (request_for (trello_api s) ''/members/me/boards'') = Raises e \<Longrightarrow>
   fst (get_all_boards up s) = Inl e"
  by (simp add: get_all_boards_def andthen_def make_request_Raises)

lemma get_board_members_non_success:
  "non_success (on_board_members up (request_for (trello_api s) (''/boards/'' @ py_str bid @ ''/members''))) \<Longrightarrow>
   fst (get_board_members up bid s) = Inr Map.empty"
  by (simp add: get_board_members_def andthen_def make_request_non_success or_empty_def add_members_def)

lemma get_board_members_Raises:
  "on_board_members up (request_for (trello_api s) (''/boards/'' @ py_str bid @ ''/members'')) = Raises e \<Longrightarrow>
   fst (get_board_members up bid s) = Inl e"
  by (simp add: get_board_members_def andthen_def make_request_Raises)

lemma get_cards_on_board_non_success:
  "non_success (on_cards up (request_for (trello_api s) (''/boards/'' @ py_str bid @ ''/cards?members=true&list=true''))) \<Longrightarrow>
   fst (get_cards_on_board up bid s) = Inr []"
  by (simp add: get_cards_on_board_def andthen_def make_request_non_success or_empty_def returns_def)

lemma get_cards_on_board_Raises:
  "on_cards up (request_for (trello_api s) (''/boards/'' @ py_str bid @ ''/cards?members=true&list=true'')) = Raises e \<Longrightarrow>
   fst (get_cards_on_board up bid s) = Inl e"
  by (simp add: get_cards_on_board_def andthen_def make_request_Raises)

lemma get_member_name_non_success:
  "member_cache (trello_api s) (Some mid) = None \<Longrightarrow>
   non_success (on_member up (request_for (trello_api s) (''/members/'' @ mid))) \<Longrightarrow>
   fst (get_member_name up mid s) = Inr ''Unknown''"
  by (simp add: get_member_name_def andthen_def make_request_non_success)

lemma get_member_name_Raises:
  "member_cache (trello_api s) (Some mid) = None \<Longrightarrow>
   on_member up (request_for (trello_api s) (''/members/'' @ mid)) = Raises e \<Longrightarrow>
   fst (get_member_name up mid s) = Inl e"
  by (simp add: get_member_name_def andthen_def make_request_Raises)

lemma get_list_name_non_success:
  "list_cache (trello_api s) lid = None \<Longrightarrow>
   non_success (on_list up (request_for (trello_api s) (''/lists/'' @ lid))) \<Longrightarrow>
   fst (get_list_name up lid s) = Inr (Some ''Unknown List'')"
  by (simp add: get_list_name_def andthen_def make_request_non_success)

lemma get_list_name_Raises:
  "list_cache (trello_api s) lid = None \<Longrightarrow>
   on_list up (request_for (trello_api s) (''/lists/'' @ lid)) = Raises e \<Longrightarrow>
   fst (get_list_name up lid s) = Inl e"
  by (simp add: get_list_name_def andthen_def make_request_Raises)

lemma get_card_activity_non_success:
  "non_success (on_actions up (request_for (trello_api s) (''/cards/'' @ py_str cid @ ''/actions?filter=commentCard''))) \<Longrightarrow>
   fst (get_card_activity up cid s) = Inr []"
  by (simp add: get_card_activity_def andthen_def make_request_non_success or_empty_def lift_def)

lemma get_card_activity_Raises:
  "on_actions up (request_for (trello_api s) (''/cards/'' @ py_str cid @ ''/actions?filter=commentCard'')) = Raises e \<Longrightarrow>
   fst (get_card_activity up cid s) = Inl e"
  by (simp add: get_card_activity_def andthen_def make_request_Raises)

lemma get_checklist_items_detailed_non_success:
  "non_success (on_checklists up (request_for (trello_api s) (''/cards/'' @ py_str cid @ ''/checklists''))) \<Longrightarrow>
   fst (get_checklist_items_detailed up cid ml s) = Inr []"
  by (simp add: get_checklist_items_detailed_def andthen_def make_request_non_success or_empty_def lift_def)

lemma get_checklist_items_detailed_Raises:
  "on_checklists up (request_for (trello_api s) (''/cards/'' @ py_str cid @ ''/checklists'')) = Raises e \<Longrightarrow>
   fst (get_checklist_items_detailed up cid ml s) = Inl e"
  by (simp add: get_checklist_items_detailed_def andthen_def make_request_Raises)

lemma sync_trello_exception:
  "TRELLO_API_KEY env \<noteq> ''your_api_key_here'' \<Longrightarrow> TRELLO_TOKEN env \<noteq> ''your_token_here'' \<Longrightarrow>
   fst (flatten up now (start_state env pc)) = Inl e \<Longrightarrow>
   fst (sync_trello env up now pc) = \<lparr>http_status = 500, http_body = ErrorOf e\<rparr>"
  by (auto simp: sync_trello_def split: prod.splits sum.splits)

text \<open>
  C2 as stated fails where a request raises: with an upstream that refuses the connection,
  \<^verbatim>\<open>get_all_boards\<close> raises instead of returning the empty list and \<^verbatim>\<open>/sync\<close> answers
  500; and when only the request for the comments of one card raises, the whole pass is lost
  the same way.
\<close>

theorem C2_counterexample:
  "fst (get_all_boards ex_up_down (start_state ex_env {})) = Inl (RequestException ''connection refused'') \<and>
   fst (sync_trello ex_env ex_up_down ''2024-07-05T10:00:00'' {}) =
     \<lparr>http_status = 500, http_body = ErrorOf (RequestException ''connection refused'')\<rparr> \<and>
   fst (sync_trello ex_env ex_up_failing ''2024-07-05T10:00:00'' {}) =
     \<lparr>http_status = 500, http_body = ErrorOf (RequestException ''timed out'')\<rparr>"
  by code_simp


text \<open>
  C2, amended: in \<^verbatim>\<open>_make_request\<close> and in each of the seven calls of the client, an
  answer with a status other than 200 is replaced inside the client by the neutral value
  (\<^verbatim>\<open>None\<close>, the empty list, the empty lookup, \<^verbatim>\<open>Unknown\<close>, \<^verbatim>\<open>Unknown List\<close>, the
  empty string), while an exception raised by the request leaves the client; \<^verbatim>\<open>/sync\<close>
  then answers 500 with that exception.
\<close>

theorem C2_status_swallowed_exception_propagates:
  "(non_success (requests_get (request_for (trello_api s) endpoint)) \<longrightarrow>
      fst (make_request requests_get endpoint s) = Inr None) \<and>
   (requests_get (request_for (trello_api s) endpoint) = Raises e \<longrightarrow>
      fst (make_request requests_get endpoint s) = Inl e) \<and>
   (non_success (on_boards up (request_for (trello_api s) ''/members/me/boards'')) \<longrightarrow>
      fst (get_all_boards up s) = Inr []) \<and>
   (non_success (on_board_members up (request_for (trello_api s) (''/boards/'' @ py_str bid @ ''/members''))) \<longrightarrow>
      fst (get_board_members up bid s) = Inr Map.empty) \<and>
   (non_success (on_cards up (request_for (trello_api s) (''/boards/'' @ py_str bid @ ''/cards?members=true&list=true''))) \<longrightarrow>
      fst (get_cards_on_board up bid s) = Inr []) \<and>
   (member_cache (trello_api s) (Some mid) = None \<and>
    non_success (on_member up (request_for (trello_api s) (''/members/'' @ mid))) \<longrightarrow>
      fst (get_member_name up mid s) = Inr ''Unknown'') \<and>
   (list_cache (trello_api s) lid = None \<and>
    non_success (on_list up (request_for (trello_api s) (''/lists/'' @ lid))) \<longrightarrow>
      fst (get_list_name up lid s) = Inr (Some ''Unknown List'')) \<and>
   (non_success (on_actions up (request_for (trello_api s) (''/cards/'' @ py_str cid @ ''/actions?filter=commentCard''))) \<longrightarrow>
      fst (get_card_activity up cid s) = Inr []) \<and>
   (non_success (on_checklists up (request_for (trello_api s) (''/cards/'' @ py_str cid @ ''/checklists''))) \<longrightarrow>
      fst (get_checklist_items_detailed up cid ml s) = Inr []) \<and>
   (on_boards dn (request_for (trello_api s) ''/members/me/boards'') = Raises e \<longrightarrow>
      fst (get_all_boards dn s) = Inl e) \<and>
   (on_board_members dn (request_for (trello_api s) (''/boards/'' @ py_str bid @ ''/members'')) = Raises e \<longrightarrow>
      fst (get_board_members dn bid s) = Inl e) \<and>
   (on_cards dn (request_for (trello_api s) (''/boards/'' @ py_str bid @ ''/cards?members=true&list=true'')) = Raises e \<longrightarrow>
      fst (get_cards_on_board dn bid s) = Inl e) \<and>
   (member_cache (trello_api s) (Some mid) = None \<and>
    on_member dn (request_for (trello_api s) (''/members/'' @ mid)) = Raises e \<longrightarrow>
      fst (get_member_name dn mid s) = Inl e) \<and>
   (list_cache (trello_api s) lid = None \<and>
    on_list dn (request_for (trello_api s) (''/lists/'' @ lid)) = Raises e \<longrightarrow>
      fst (get_list_name dn lid s) = Inl e) \<and>
   (on_actions dn (request_for (trello_api s) (''/cards/'' @ py_str cid @ ''/actions?filter=commentCard'')) = Raises e \<longrightarrow>
      fst (get_card_activity dn cid s) = Inl e) \<and>
   (on_checklists dn (request_for (trello_api s) (''/cards/'' @ py_str cid @ ''/checklists'')) = Raises e \<longrightarrow>
      fst (get_checklist_items_detailed dn cid ml s) = Inl e) \<and>
   (TRELLO_API_KEY env \<noteq> ''your_api_key_here'' \<and> TRELLO_TOKEN env \<noteq> ''your_token_here'' \<and>
    fst (flatten dn now (start_state env pc)) = Inl e \<longrightarrow>
      fst (sync_trello env dn now pc) = \<lparr>http_status = 500, http_body = ErrorOf e\<rparr>)"
  using make_request_non_success [of requests_get s endpoint]
    make_request_Raises [of requests_get s endpoint e]
    get_all_boards_non_success [of up s] get_board_members_non_success [of up s bid]
    get_cards_on_board_non_success [of up s bid] get_member_name_non_success [of s mid up]
    get_list_name_non_success [of s lid up] get_card_activity_non_success [of up s cid]
    get_checklist_items_detailed_non_success [of up s cid ml]
    get_all_boards_Raises [of dn s e] get_board_members_Raises [of dn s bid e]
    get_cards_on_board_Raises [of dn s bid e] get_member_name_Raises [of s mid dn e]
    get_list_name_Raises [of s lid dn e] get_card_activity_Raises [of dn s cid e]
    get_checklist_items_detailed_Raises [of dn s cid e ml]
    sync_trello_exception [of env dn now pc e]
  by simp

theorem C2_status_swallowed_exception_propagates_witness:
  "fst (make_request (on_boards ex_up_rejecting) ''/members/me/boards'' (start_state ex_env {})) = Inr None \<and>
   fst (get_all_boards ex_up_rejecting (start_state ex_env {})) = Inr [] \<and>
   fst (get_board_members ex_up_rejecting (Some ''b1'') (start_state ex_env {})) = Inr Map.empty \<and>
   fst (get_cards_on_board ex_up_rejecting (Some ''b1'') (start_state ex_env {})) = Inr [] \<and>
   fst (get_member_name ex_up_rejecting ''m1'' (start_state ex_env {})) = Inr ''Unknown'' \<and>
   fst (get_list_name ex_up_rejecting ''l2'' (start_state ex_env {})) = Inr (Some ''Unknown List'') \<and>
   fst (get_card_activity ex_up_rejecting (Some ''c1'') (start_state ex_env {})) = Inr [] \<and>
   fst (get_checklist_items_detailed ex_up_rejecting (Some ''c1'') Map.empty (start_state ex_env {})) = Inr [] \<and>
   fst (get_all_boards ex_up_down (start_state ex_env {})) = Inl (RequestException ''connection refused'') \<and>
   fst (get_board_members ex_up_down (Some ''b1'') (start_state ex_env {})) = Inl (RequestException ''connection refused'') \<and>
   fst (get_cards_on_board ex_up_down (Some ''b1'') (start_state ex_env {})) = Inl (RequestException ''connection refused'') \<and>
   fst (get_member_name ex_up_down ''m1'' (start_state ex_env {})) = Inl (RequestException ''connection refused'') \<and>
   fst (get_list_name ex_up_down ''l2'' (start_state ex_env {})) = Inl (RequestException ''connection refused'') \<and>
   fst (get_card_activity ex_up_down (Some ''c1'') (start_state ex_env {})) = Inl (RequestException ''connection refused'') \<and>
   fst (get_checklist_items_detailed ex_up_down (Some ''c1'') Map.empty (start_state ex_env {})) = Inl (RequestException ''connection refused'') \<and>
   fst (sync_trello ex_env ex_up_down ''2024-07-05T10:00:00'' {}) =
     \<lparr>http_status = 500, http_body = ErrorOf (RequestException ''connection refused'')\<rparr>"
proof -
  have pass: "fst (flatten ex_up_down ''2024-07-05T10:00:00'' (start_state ex_env {})) =
                Inl (RequestException ''connection refused'')"
    by code_simp
  have caches: "member_cache (trello_api (start_state ex_env {})) (Some ''m1'') = None"
    "list_cache (trello_api (start_state ex_env {})) ''l2'' = None"
    by (simp_all add: start_state_def TrelloAPI_init_def)
  show ?thesis
    using C2_status_swallowed_exception_propagates
            [where requests_get = "on_boards ex_up_rejecting" and endpoint = "''/members/me/boards''"
               and up = ex_up_rejecting and dn = ex_up_down and s = "start_state ex_env {}"
               and bid = "Some ''b1''" and cid = "Some ''c1''" and mid = "''m1''" and lid = "''l2''"
               and ml = Map.empty and e = "RequestException ''connection refused''"
               and env = ex_env and now = "''2024-07-05T10:00:00''" and pc = "{}"]
          pass caches
    by (simp add: ex_up_rejecting_def ex_up_down_def non_success_def ex_env_key)
qed

subsection \<open>What the client keeps\<close>

lemma grows_refl: "grows s s"
  by (simp add: grows_def)

lemma grows_trans: "grows s t \<Longrightarrow> grows t u \<Longrightarrow> grows s u"
  unfolding grows_def by (metis map_le_trans subset_trans)

lemma keeps_refl: "keeps s s"
  by (simp add: keeps_def grows_refl)

lemma keeps_trans: "keeps s t \<Longrightarrow> keeps t u \<Longrightarrow> keeps s u"
  by (auto simp: keeps_def intro: grows_trans)

lemma keeps_grows: "keeps s t \<Longrightarrow> grows s t"
  by (simp add: keeps_def)

lemma request_for_config:
  "config s = config t \<Longrightarrow> request_for (trello_api s) ep = request_for (trello_api t) ep"
  by (simp add: config_def request_for_def)

lemma andthen_keeps:
  assumes "andthen m f s = (r, s'')"
      and "\<And>r' s'. m s = (r', s') \<Longrightarrow> keeps s s'"
      and "\<And>v s'. m s = (Inr v, s') \<Longrightarrow> f v s' = (r, s'') \<Longrightarrow> keeps s' s''"
  shows "keeps s s''"
  using assms(1)
proof (cases rule: andthen_cases)
  case (first e)
  then show ?thesis using assms(2) by blast
next
  case (second v s')
  then show ?thesis using assms(2,3) keeps_trans by blast
qed

lemma andthen_grows:
  assumes "andthen m f s = (r, s'')"
      and "\<And>r' s'. m s = (r', s') \<Longrightarrow> grows s s'"
      and "\<And>v s'. m s = (Inr v, s') \<Longrightarrow> f v s' = (r, s'') \<Longrightarrow> grows s' s''"
  shows "grows s s''"
  using assms(1)
proof (cases rule: andthen_cases)
  case (first e)
  then show ?thesis using assms(2) by blast
next
  case (second v s')
  then show ?thesis using assms(2,3) grows_trans by blast
qed

lemma lift_state: "lift x s = (r, s') \<Longrightarrow> s' = s \<and> r = x"
  by (auto simp: lift_def)

lemma returns_state: "returns x s = (r, s') \<Longrightarrow> s' = s \<and> r = Inr x"
  by (auto simp: returns_def)

lemma make_request_keeps: "make_request g ep s = (r, s') \<Longrightarrow> keeps s s'"
  by (drule make_request_state) (simp add: keeps_def grows_def config_def)


lemma set_member_cache_keeps: "keeps s (set_member_cache k v s)"
  by (auto simp: set_member_cache_def keeps_def grows_def config_def)

lemma set_list_cache_keeps: "list_cache (trello_api s) k = None \<Longrightarrow> keeps s (set_list_cache k v s)"
  by (auto simp: set_list_cache_def keeps_def grows_def config_def map_le_def)

lemma make_request_caches:
  "make_request g ep s = (r, s') \<Longrightarrow> trello_api s' = trello_api s"
  by (drule make_request_state) simp

lemma get_member_name_keeps:
  assumes "get_member_name up mid s = (r, s')"
  shows "keeps s s'"
proof (cases "member_cache (trello_api s) (Some mid)")
  case (Some n)
  with assms have "s' = s" by (simp add: get_member_name_def)
  then show ?thesis by (simp add: keeps_refl)
next
  case None
  with assms have run: "andthen (make_request (on_member up) (''/members/'' @ mid))
      (\<lambda>member_data s'. case member_data of
           Some md \<Rightarrow> (Inr (resolved_name md), set_member_cache (Some mid) (resolved_name md) s')
         | None \<Rightarrow> (Inr ''Unknown'', s')) s = (r, s')"
    by (simp add: get_member_name_def)
  show ?thesis
  proof (rule andthen_keeps [OF run])
    show "\<And>r' t. make_request (on_member up) (''/members/'' @ mid) s = (r', t) \<Longrightarrow> keeps s t"
      by (rule make_request_keeps)
  next
    fix v t
    assume "(case v of Some md \<Rightarrow> (Inr (resolved_name md), set_member_cache (Some mid) (resolved_name md) t)
              | None \<Rightarrow> (Inr ''Unknown'', t)) = (r, s')"
    then show "keeps t s'"
      by (auto simp: keeps_refl set_member_cache_keeps split: option.splits)
  qed
qed

lemma get_list_name_keeps:
  assumes "get_list_name up lid s = (r, s')"
  shows "keeps s s'"
proof (cases "list_cache (trello_api s) lid")
  case (Some n)
  with assms have "s' = s" by (simp add: get_list_name_def)
  then show ?thesis by (simp add: keeps_refl)
next
  case None
  with assms have run: "andthen (make_request (on_list up) (''/lists/'' @ lid))
      (\<lambda>list_data s'. case list_data of
           Some ld \<Rightarrow> (Inr (get_or (list_name ld) ''Unknown List''),
                        set_list_cache lid (get_or (list_name ld) ''Unknown List'') s')
         | None \<Rightarrow> (Inr (Some ''Unknown List''), s')) s = (r, s')"
    by (simp add: get_list_name_def)
  show ?thesis
  proof (rule andthen_keeps [OF run])
    show "\<And>r' t. make_request (on_list up) (''/lists/'' @ lid) s = (r', t) \<Longrightarrow> keeps s t"
      by (rule make_request_keeps)
  next
    fix v t
    assume req: "make_request (on_list up) (''/lists/'' @ lid) s = (Inr v, t)"
       and "(case v of Some ld \<Rightarrow> (Inr (get_or (list_name ld) ''Unknown List''),
                        set_list_cache lid (get_or (list_name ld) ''Unknown List'') t)
              | None \<Rightarrow> (Inr (Some ''Unknown List''), t)) = (r, s')"
    moreover from req None have "list_cache (trello_api t) lid = None"
      by (simp add: make_request_caches)
    ultimately show "keeps t s'"
      by (auto simp: keeps_refl set_list_cache_keeps split: option.splits)
  qed
qed

lemma get_all_boards_keeps:
  assumes "get_all_boards up s = (r, s')"
  shows "keeps s s'"
  using assms unfolding get_all_boards_def
  by (rule andthen_keeps) (auto dest: make_request_keeps returns_state simp: keeps_refl)

lemma dom_add_members: "dom t \<subseteq> dom (add_members ms t)"
proof (induction ms arbitrary: t)
  case Nil
  show ?case by (simp add: add_members_def)
next
  case (Cons m ms)
  have "dom t \<subseteq> dom (t(get (member_id m) \<mapsto> resolved_name m))" by auto
  also have "\<dots> \<subseteq> dom (add_members ms (t(get (member_id m) \<mapsto> resolved_name m)))"
    by (rule Cons.IH)
  finally show ?case by (simp add: add_members_def)
qed

lemma add_members_keeps:
  "keeps s (s\<lparr>trello_api := (trello_api s)
               \<lparr>member_cache := add_members ms (member_cache (trello_api s))\<rparr>\<rparr>)"
  using dom_add_members [of "member_cache (trello_api s)" ms]
  by (simp add: keeps_def grows_def config_def)

lemma get_board_members_keeps:
  assumes "get_board_members up bid s = (r, s')"
  shows "keeps s s'"
  using assms unfolding get_board_members_def
  by (rule andthen_keeps) (auto dest: make_request_keeps simp: add_members_keeps)

lemma get_cards_on_board_keeps:
  assumes "get_cards_on_board up bid s = (r, s')"
  shows "keeps s s'"
  using assms unfolding get_cards_on_board_def
  by (rule andthen_keeps) (auto dest: make_request_keeps returns_state simp: keeps_refl)

lemma get_card_activity_keeps:
  assumes "get_card_activity up cid s = (r, s')"
  shows "keeps s s'"
  using assms unfolding get_card_activity_def
  by (rule andthen_keeps) (auto dest: make_request_keeps lift_state simp: keeps_refl)

lemma get_checklist_items_detailed_keeps:
  assumes "get_checklist_items_detailed up cid ml s = (r, s')"
  shows "keeps s s'"
  using assms unfolding get_checklist_items_detailed_def
  by (rule andthen_keeps) (auto dest: make_request_keeps lift_state simp: keeps_refl)

lemma card_list_name_keeps:
  assumes "card_list_name up c s = (r, s')"
  shows "keeps s s'"
proof (cases "card_list c")
  case (Val l)
  with assms show ?thesis
    by (auto simp: card_list_name_def keeps_refl dest: returns_state)
next
  case Absent
  with assms show ?thesis
    by (auto simp: card_list_name_def keeps_refl dest: returns_state get_list_name_keeps split: if_splits)
next
  case Null
  with assms show ?thesis
    by (auto simp: card_list_name_def keeps_refl dest: returns_state get_list_name_keeps split: if_splits)
qed

subsection \<open>The body of the card loop\<close>

lemma andthen_lift: "andthen (lift x) f s = (case x of Inl e \<Rightarrow> (Inl e, s) | Inr v \<Rightarrow> f v s)"
  by (simp add: andthen_def lift_def split: sum.splits)

lemma map_exn_Inr:
  "map_exn f xs = Inr ys \<Longrightarrow> list_all2 (\<lambda>x y. f x = Inr y) xs ys"
  by (induction xs arbitrary: ys) (auto split: sum.splits)

lemma list_all2_concat:
  "list_all2 (\<lambda>x ys. list_all2 P (g x) ys) xs yss \<Longrightarrow> list_all2 P (concat (map g xs)) (concat yss)"
  by (induction xs yss rule: list_all2_induct) (auto intro: list_all2_appendI)

lemma entries_of_checklist_Inr:
  assumes "entries_of_checklist ml cl = Inr es"
  shows "list_all2 (\<lambda>item e. checklist_entry_of ml item = Inr e) (or_empty (get (checkItems cl))) es"
  using assms
  by (cases "checkItems cl")
     (auto simp: entries_of_checklist_def get_or_def get_def or_empty_def dest: map_exn_Inr)

text \<open>
  A successful \<^verbatim>\<open>get_checklist_items_detailed\<close> returns one entry for every checklist item
  the upstream lists for the card, in order.
\<close>

lemma get_checklist_items_detailed_Inr:
  assumes "get_checklist_items_detailed up cid ml s = (Inr entries, s')"
  shows "list_all2 (\<lambda>item e. checklist_entry_of ml item = Inr e)
           (checklist_items_of up (trello_api s) cid) entries"
proof -
  let ?ep = "''/cards/'' @ py_str cid @ ''/checklists''"
  from assms obtain r t where
    req: "make_request (on_checklists up) ?ep s = (Inr r, t)" and
    rest: "lift (case map_exn (entries_of_checklist ml) (or_empty r) of
                   Inl e \<Rightarrow> Inl e | Inr per_checklist \<Rightarrow> Inr (concat per_checklist)) t = (Inr entries, s')"
    unfolding get_checklist_items_detailed_def by (rule andthen_InrE)
  from rest obtain per where per: "map_exn (entries_of_checklist ml) (or_empty r) = Inr per"
    and entries: "entries = concat per"
    by (auto simp: lift_def split: sum.splits)
  have items: "checklist_items_of up (trello_api s) cid =
                 concat (map (\<lambda>cl. or_empty (get (checkItems cl))) (or_empty r))"
    using req
    by (auto simp: make_request_def checklist_items_of_def Let_def or_empty_def
             split: reply.splits if_splits option.splits)
  have "list_all2 (\<lambda>cl es. list_all2 (\<lambda>item e. checklist_entry_of ml item = Inr e)
                               (or_empty (get (checkItems cl))) es) (or_empty r) per"
    using map_exn_Inr [OF per] by (rule list_all2_mono) (rule entries_of_checklist_Inr)
  then show ?thesis
    unfolding items entries by (rule list_all2_concat)
qed

lemma checklist_items_of_config:
  "config s = config t \<Longrightarrow> checklist_items_of up (trello_api s) cid = checklist_items_of up (trello_api t) cid"
  using request_for_config [of s t] by (simp add: checklist_items_of_def)

text \<open>What a successful run of lines 221 to 256 consisted of.\<close>

lemma card_records_Inr:
  assumes "card_records up bn ml c cid cn link s = (Inr recs, s')"
  obtains cm ln s1 act s2 entries s3 where
    "get_card_members c = Inr cm"
    "card_list_name up c s = (Inr ln, s1)"
    "get_card_activity up cid s1 = (Inr act, s2)"
    "get_checklist_items_detailed up cid ml s2 = (Inr entries, s3)"
    "recs = map (task_record bn cn ln cm link act) entries"
    "s' = s3\<lparr>processed_cards := insert cid (processed_cards s3)\<rparr>"
proof -
  from assms obtain cm where cm: "get_card_members c = Inr cm"
    and r1: "andthen (card_list_name up c) (\<lambda>list_nm.
       andthen (get_card_activity up cid) (\<lambda>card_activity.
       andthen (get_checklist_items_detailed up cid ml) (\<lambda>checklist_items s'.
         (Inr (if checklist_items \<noteq> []
               then map (task_record bn cn list_nm cm link card_activity) checklist_items
               else []),
          s'\<lparr>processed_cards := insert cid (processed_cards s')\<rparr>)))) s = (Inr recs, s')"
    unfolding card_records_def andthen_lift by (auto split: sum.splits)
  from r1 obtain ln s1 where ln: "card_list_name up c s = (Inr ln, s1)"
    and r2: "andthen (get_card_activity up cid) (\<lambda>card_activity.
       andthen (get_checklist_items_detailed up cid ml) (\<lambda>checklist_items s'.
         (Inr (if checklist_items \<noteq> []
               then map (task_record bn cn ln cm link card_activity) checklist_items
               else []),
          s'\<lparr>processed_cards := insert cid (processed_cards s')\<rparr>))) s1 = (Inr recs, s')"
    by (rule andthen_InrE)
  from r2 obtain act s2 where act: "get_card_activity up cid s1 = (Inr act, s2)"
    and r3: "andthen (get_checklist_items_detailed up cid ml) (\<lambda>checklist_items s'.
         (Inr (if checklist_items \<noteq> []
               then map (task_record bn cn ln cm link act) checklist_items
               else []),
          s'\<lparr>processed_cards := insert cid (processed_cards s')\<rparr>)) s2 = (Inr recs, s')"
    by (rule andthen_InrE)
  from r3 obtain entries s3 where
    entries: "get_checklist_items_detailed up cid ml s2 = (Inr entries, s3)"
    and r4: "(Inr (if entries \<noteq> [] then map (task_record bn cn ln cm link act) entries else []),
              s3\<lparr>processed_cards := insert cid (processed_cards s3)\<rparr>) = (Inr recs, s')"
    by (rule andthen_InrE) blast
  from r4 have "recs = map (task_record bn cn ln cm link act) entries"
    and "s' = s3\<lparr>processed_cards := insert cid (processed_cards s3)\<rparr>"
    by (auto split: if_splits)
  with cm ln act entries show ?thesis by (rule that)
qed

text \<open>What a successful run of the loop body consisted of.\<close>

lemma process_card_Inr:
  assumes "process_card up bn ml c s = (Inr recs, s')"
  obtains cid cn link where
    "subscript ''id'' (card_id c) = Inr cid"
    "subscript ''name'' (card_name c) = Inr cn"
    "subscript ''shortUrl'' (shortUrl c) = Inr link"
    "if cid \<in> processed_cards s then recs = [] \<and> s' = s
     else card_records up bn ml c cid cn link s = (Inr recs, s')"
  using assms unfolding process_card_def andthen_lift
  by (auto split: sum.splits if_splits)

lemma checklist_entry_eta:
  "\<lparr>entry_name = entry_name e, entry_status = entry_status e,
    entry_assigned_to = entry_assigned_to e, entry_due_date = entry_due_date e\<rparr> = e"
  by (cases e) simp

lemma card_records_config:
  assumes "card_list_name up c s = (r1, s1)" and "get_card_activity up cid s1 = (r2, s2)"
  shows "config s2 = config s"
  using card_list_name_keeps [OF assms(1)] get_card_activity_keeps [OF assms(2)]
  by (simp add: keeps_def grows_def)

text \<open>
  C4: the loop body runs on a card that is not archived (the loop is over \<open>active_cards\<close>)
  and whose identifier is not in the set of processed cards. If the upstream lists at least
  one checklist item for it and the body completes, it emits exactly one record per item, in
  order, with the step fields of that item; and the card-level fields \<^verbatim>\<open>Client_Name\<close>,
  \<^verbatim>\<open>Project_Name\<close>, \<^verbatim>\<open>Status\<close>, \<^verbatim>\<open>Assigned_To\<close>, \<^verbatim>\<open>Trello_Card_Link\<close> and
  \<^verbatim>\<open>Comment\<close> are the same in all of them.
\<close>

theorem C4_one_record_per_checklist_item:
  assumes run: "process_card up board_nm member_lookup c s = (Inr recs, s')"
      and id: "subscript ''id'' (card_id c) = Inr cid"
      and new: "cid \<notin> processed_cards s"
      and items: "checklist_items_of up (trello_api s) cid \<noteq> []"
  shows "length recs = length (checklist_items_of up (trello_api s) cid) \<and>
         list_all2 (\<lambda>item r. checklist_entry_of member_lookup item =
                      Inr \<lparr>entry_name = Step r, entry_status = Step_Status r,
                           entry_assigned_to = Step_Assigned_To r, entry_due_date = Due_Date r\<rparr>)
           (checklist_items_of up (trello_api s) cid) recs \<and>
         (\<exists>list_nm card_members card_activity. \<forall>r \<in> set recs.
            Client_Name r = board_nm \<and>
            subscript ''name'' (card_name c) = Inr (Project_Name r) \<and>
            Status r = list_nm \<and>
            Assigned_To r = card_members \<and>
            subscript ''shortUrl'' (shortUrl c) = Inr (Trello_Card_Link r) \<and>
            Comment r = card_activity)"
proof -
  from run obtain cid' cn link where
    id': "subscript ''id'' (card_id c) = Inr cid'" and
    cn: "subscript ''name'' (card_name c) = Inr cn" and
    link: "subscript ''shortUrl'' (shortUrl c) = Inr link" and
    body: "if cid' \<in> processed_cards s then recs = [] \<and> s' = s
           else card_records up board_nm member_lookup c cid' cn link s = (Inr recs, s')"
    by (rule process_card_Inr)
  from id id' have "cid' = cid" by simp
  with body new have "card_records up board_nm member_lookup c cid cn link s = (Inr recs, s')"
    by simp
  then obtain cm ln s1 act s2 entries s3 where
    ln: "card_list_name up c s = (Inr ln, s1)" and
    act: "get_card_activity up cid s1 = (Inr act, s2)" and
    entries: "get_checklist_items_detailed up cid member_lookup s2 = (Inr entries, s3)" and
    recs: "recs = map (task_record board_nm cn ln cm link act) entries"
    by (rule card_records_Inr)
  have "checklist_items_of up (trello_api s2) cid = checklist_items_of up (trello_api s) cid"
    by (rule checklist_items_of_config) (rule card_records_config [OF ln act])
  with get_checklist_items_detailed_Inr [OF entries]
  have all2: "list_all2 (\<lambda>item e. checklist_entry_of member_lookup item = Inr e)
                (checklist_items_of up (trello_api s) cid) entries"
    by simp
  have len: "length recs = length (checklist_items_of up (trello_api s) cid)"
    using all2 recs by (simp add: list_all2_lengthD)
  have steps: "list_all2 (\<lambda>item r. checklist_entry_of member_lookup item =
                      Inr \<lparr>entry_name = Step r, entry_status = Step_Status r,
                           entry_assigned_to = Step_Assigned_To r, entry_due_date = Due_Date r\<rparr>)
           (checklist_items_of up (trello_api s) cid) recs"
    using all2 unfolding recs by (simp add: list_all2_map2 task_record_def checklist_entry_eta)
  have fields: "\<forall>r \<in> set recs.
            Client_Name r = board_nm \<and>
            subscript ''name'' (card_name c) = Inr (Project_Name r) \<and>
            Status r = ln \<and> Assigned_To r = cm \<and>
            subscript ''shortUrl'' (shortUrl c) = Inr (Trello_Card_Link r) \<and>
            Comment r = act"
    unfolding recs using cn link by (auto simp: task_record_def)
  from len steps fields show ?thesis by blast
qed

text \<open>
  C5: if the upstream lists no checklist item for such a card and the body completes, no
  record is emitted; and with or without items the identifier of the card is added to the
  set of processed cards, and nothing else is.
\<close>

theorem C5_no_checklist_item_no_record:
  assumes run: "process_card up board_nm member_lookup c s = (Inr recs, s')"
      and id: "subscript ''id'' (card_id c) = Inr cid"
      and new: "cid \<notin> processed_cards s"
  shows "(checklist_items_of up (trello_api s) cid = [] \<longrightarrow> recs = []) \<and>
         processed_cards s' = insert cid (processed_cards s)"
proof -
  from run obtain cid' cn link where
    id': "subscript ''id'' (card_id c) = Inr cid'" and
    body: "if cid' \<in> processed_cards s then recs = [] \<and> s' = s
           else card_records up board_nm member_lookup c cid' cn link s = (Inr recs, s')"
    by (rule process_card_Inr)
  from id id' have "cid' = cid" by simp
  with body new have "card_records up board_nm member_lookup c cid cn link s = (Inr recs, s')"
    by simp
  then obtain cm ln s1 act s2 entries s3 where
    ln: "card_list_name up c s = (Inr ln, s1)" and
    act: "get_card_activity up cid s1 = (Inr act, s2)" and
    entries: "get_checklist_items_detailed up cid member_lookup s2 = (Inr entries, s3)" and
    recs: "recs = map (task_record board_nm cn ln cm link act) entries" and
    s': "s' = s3\<lparr>processed_cards := insert cid (processed_cards s3)\<rparr>"
    by (rule card_records_Inr)
  have "checklist_items_of up (trello_api s2) cid = checklist_items_of up (trello_api s) cid"
    by (rule checklist_items_of_config) (rule card_records_config [OF ln act])
  with get_checklist_items_detailed_Inr [OF entries]
  have "length entries = length (checklist_items_of up (trello_api s) cid)"
    by (simp add: list_all2_lengthD)
  then have none: "checklist_items_of up (trello_api s) cid = [] \<longrightarrow> recs = []"
    using recs by auto
  have "processed_cards s3 = processed_cards s"
    using card_list_name_keeps [OF ln] get_card_activity_keeps [OF act]
      get_checklist_items_detailed_keeps [OF entries]
    by (simp add: keeps_def)
  with s' none show ?thesis by simp
qed

theorem C4_one_record_per_checklist_item_witness:
  "checklist_items_of ex_up (trello_api (start_state ex_env {})) (Some ''c1'') = [ex_item1, ex_item2] \<and>
   fst (process_card ex_up (Some ''Acme'') ex_lookup ex_card1 (start_state ex_env {})) = Inr ex_records \<and>
   length ex_records = 2 \<and>
   map Step ex_records = [Some ''Design'', Some ''Build''] \<and>
   map (\<lambda>r. (Client_Name r, Project_Name r, Status r, Assigned_To r, Trello_Card_Link r, Comment r))
     ex_records =
     [(Some ''Acme'', Some ''Website'', Some ''Doing'', ''Alice'', Some ''https://trello.com/c/1'',
       ''Alice (2024-07-01): Looks good''),
      (Some ''Acme'', Some ''Website'', Some ''Doing'', ''Alice'', Some ''https://trello.com/c/1'',
       ''Alice (2024-07-01): Looks good'')]"
proof -
  let ?s = "start_state ex_env {}"
  have r: "fst (process_card ex_up (Some ''Acme'') ex_lookup ex_card1 ?s) = Inr ex_records"
    by code_simp
  then have run: "process_card ex_up (Some ''Acme'') ex_lookup ex_card1 ?s =
                    (Inr ex_records, snd (process_card ex_up (Some ''Acme'') ex_lookup ex_card1 ?s))"
    by (simp add: prod_eq_iff)
  have id: "subscript ''id'' (card_id ex_card1) = Inr (Some ''c1'')"
    by (simp add: ex_card1_def subscript_def)
  have new: "Some ''c1'' \<notin> processed_cards ?s"
    by (simp add: start_state_def)
  have items: "checklist_items_of ex_up (trello_api ?s) (Some ''c1'') = [ex_item1, ex_item2]"
    by code_simp
  have ne: "checklist_items_of ex_up (trello_api ?s) (Some ''c1'') \<noteq> []"
    by (simp add: items)
  from C4_one_record_per_checklist_item [OF run id new ne] r items
  show ?thesis
    by (simp add: ex_records_def ex_card1_def subscript_def)
qed

theorem C5_no_checklist_item_no_record_witness:
  "checklist_items_of ex_up (trello_api (start_state ex_env {})) (Some ''c2'') = [] \<and>
   fst (process_card ex_up (Some ''Acme'') ex_lookup ex_card2 (start_state ex_env {})) = Inr [] \<and>
   processed_cards (snd (process_card ex_up (Some ''Acme'') ex_lookup ex_card2 (start_state ex_env {}))) =
     {Some ''c2''} \<and>
   processed_cards (snd (process_card ex_up (Some ''Acme'') ex_lookup ex_card1 (start_state ex_env {}))) =
     {Some ''c1''}"
proof -
  let ?s = "start_state ex_env {}"
  have r2: "fst (process_card ex_up (Some ''Acme'') ex_lookup ex_card2 ?s) = Inr []"
    by code_simp
  then have run2: "process_card ex_up (Some ''Acme'') ex_lookup ex_card2 ?s =
                    (Inr [], snd (process_card ex_up (Some ''Acme'') ex_lookup ex_card2 ?s))"
    by (simp add: prod_eq_iff)
  have r1: "fst (process_card ex_up (Some ''Acme'') ex_lookup ex_card1 ?s) = Inr ex_records"
    by code_simp
  then have run1: "process_card ex_up (Some ''Acme'') ex_lookup ex_card1 ?s =
                    (Inr ex_records, snd (process_card ex_up (Some ''Acme'') ex_lookup ex_card1 ?s))"
    by (simp add: prod_eq_iff)
  have id2: "subscript ''id'' (card_id ex_card2) = Inr (Some ''c2'')"
    by (simp add: ex_card2_def subscript_def)
  have id1: "subscript ''id'' (card_id ex_card1) = Inr (Some ''c1'')"
    by (simp add: ex_card1_def subscript_def)
  have new: "Some ''c2'' \<notin> processed_cards ?s" "Some ''c1'' \<notin> processed_cards ?s"
    "processed_cards ?s = {}"
    by (simp_all add: start_state_def)
  have items: "checklist_items_of ex_up (trello_api ?s) (Some ''c2'') = []"
    by code_simp
  from C5_no_checklist_item_no_record [OF run2 id2 new(1)]
       C5_no_checklist_item_no_record [OF run1 id1 new(2)] r2 items new(3)
  show ?thesis by simp
qed

subsection \<open>The set of processed cards only grows\<close>

lemma growingI: "(\<And>s r s'. m s = (r, s') \<Longrightarrow> grows s s') \<Longrightarrow> growing m"
  by (simp add: growing_def)

lemma growingD: "growing m \<Longrightarrow> m s = (r, s') \<Longrightarrow> grows s s'"
  by (simp add: growing_def)

lemma growing_returns: "growing (returns x)"
  by (rule growingI) (auto dest: returns_state simp: grows_refl)

lemma growing_lift: "growing (lift x)"
  by (rule growingI) (auto dest: lift_state simp: grows_refl)

lemma growing_andthen:
  assumes "growing m" and "\<And>v. growing (f v)"
  shows "growing (andthen m f)"
proof (rule growingI)
  fix s r s'
  assume "andthen m f s = (r, s')"
  then show "grows s s'"
    by (rule andthen_grows) (auto dest: growingD [OF assms(1)] growingD [OF assms(2)])
qed

lemma growing_for_each:
  assumes "\<And>x. growing (f x)"
  shows "growing (for_each f xs)"
  by (induction xs) (auto intro!: growing_returns growing_andthen assms)

lemma growing_card_list_name: "growing (card_list_name up c)"
  by (rule growingI) (auto dest: card_list_name_keeps keeps_grows)

lemma growing_get_card_activity: "growing (get_card_activity up cid)"
  by (rule growingI) (auto dest: get_card_activity_keeps keeps_grows)

lemma growing_get_checklist_items_detailed: "growing (get_checklist_items_detailed up cid ml)"
  by (rule growingI) (auto dest: get_checklist_items_detailed_keeps keeps_grows)

lemma growing_get_board_members: "growing (get_board_members up bid)"
  by (rule growingI) (auto dest: get_board_members_keeps keeps_grows)

lemma growing_get_cards_on_board: "growing (get_cards_on_board up bid)"
  by (rule growingI) (auto dest: get_cards_on_board_keeps keeps_grows)

lemma growing_get_all_boards: "growing (get_all_boards up)"
  by (rule growingI) (auto dest: get_all_boards_keeps keeps_grows)

lemma grows_insert: "grows s (s\<lparr>processed_cards := insert cid (processed_cards s)\<rparr>)"
  by (auto simp: grows_def config_def)

lemma growing_card_records: "growing (card_records up bn ml c cid cn link)"
  unfolding card_records_def
  by (intro growing_andthen growing_lift growing_card_list_name growing_get_card_activity
        growing_get_checklist_items_detailed)
     (auto intro!: growingI simp: grows_insert)

lemma growing_process_card: "growing (process_card up bn ml c)"
  unfolding process_card_def
  by (intro growing_andthen growing_lift)
     (auto intro!: growingI simp: grows_refl dest: growingD [OF growing_card_records] split: if_splits)

lemma growing_process_board: "growing (process_board up b)"
  unfolding process_board_def
  by (intro growing_andthen growing_lift growing_get_board_members growing_get_cards_on_board
        growing_for_each growing_process_card)

lemma growing_flatten: "growing (flatten up now)"
  unfolding flatten_def
  by (intro growing_andthen growing_get_all_boards)
     (auto intro!: growing_returns growing_andthen growing_for_each growing_process_board)

text \<open>The set of processed cards never loses an element, whatever \<^verbatim>\<open>/sync\<close> answers.\<close>

lemma sync_trello_mono:
  assumes "sync_trello env up now pc = (resp, pc', log)"
  shows "pc \<subseteq> pc'"
proof (cases "TRELLO_API_KEY env = ''your_api_key_here'' \<or> TRELLO_TOKEN env = ''your_token_here''")
  case True
  with assms show ?thesis by (simp add: sync_trello_def)
next
  case False
  obtain r s where run: "flatten up now (start_state env pc) = (r, s)"
    by (cases "flatten up now (start_state env pc)")
  from growingD [OF growing_flatten run] have "pc \<subseteq> processed_cards s"
    by (simp add: grows_def start_state_def)
  moreover from assms False run have "pc' = processed_cards s"
    by (auto simp: sync_trello_def split: sum.splits)
  ultimately show ?thesis by simp
qed

lemma serve_mono: "serve env reqs pc = (resps, pc') \<Longrightarrow> pc \<subseteq> pc'"
proof (induction reqs arbitrary: pc resps pc')
  case Nil
  then show ?case by simp
next
  case (Cons a reqs)
  obtain up now where a: "a = (up, now)" by (cases a)
  obtain resp pc1 log where one: "sync_trello env up now pc = (resp, pc1, log)"
    by (cases "sync_trello env up now pc")
  obtain rs pc2 where rest: "serve env reqs pc1 = (rs, pc2)"
    by (cases "serve env reqs pc1")
  from Cons.prems a one rest have "pc' = pc2" by simp
  moreover from sync_trello_mono [OF one] Cons.IH [OF rest] have "pc \<subseteq> pc2" by simp
  ultimately show ?case by simp
qed

text \<open>
  A card whose identifier is in the set is skipped: no record, no request, no change. (Lines
  214 and 215 are evaluated before the test, so a card without a name or a URL raises.)
\<close>

lemma process_card_skip:
  assumes "subscript ''id'' (card_id c) = Inr cid" and "cid \<in> processed_cards s"
  shows "process_card up bn ml c s = (Inr [], s) \<or>
         process_card up bn ml c s = (Inl (KeyError ''name''), s) \<or>
         process_card up bn ml c s = (Inl (KeyError ''shortUrl''), s)"
  using assms unfolding process_card_def andthen_lift
  by (auto simp: subscript_def split: sum.splits field.splits)

subsection \<open>Cards that the loop completed on\<close>

lemma for_each_Cons_cases:
  assumes "for_each f (x # xs) s = (r, s'')"
  obtains (head_fails) e where "f x s = (Inl e, s'')" "r = Inl e"
  | (tail_fails) ys s' e where "f x s = (Inr ys, s')" "for_each f xs s' = (Inl e, s'')" "r = Inl e"
  | (completes) ys s' zs where "f x s = (Inr ys, s')" "for_each f xs s' = (Inr zs, s'')" "r = Inr (ys @ zs)"
  using assms
  by (auto simp: andthen_def returns_def split: prod.splits sum.splits)

lemma for_each_Cons_Inr:
  assumes "for_each f (x # xs) s = (Inr rs, s'')"
  obtains ys s' zs where "f x s = (Inr ys, s')" "for_each f xs s' = (Inr zs, s'')" "rs = ys @ zs"
  using assms by (cases rule: for_each_Cons_cases) auto

text \<open>A card that the loop body completed on is in the set afterwards.\<close>

lemma process_card_Inr_processed:
  assumes "process_card up bn ml c s = (Inr recs, s')"
      and "subscript ''id'' (card_id c) = Inr cid"
  shows "cid \<in> processed_cards s'"
proof -
  from assms(1) obtain cid' cn link where
    id': "subscript ''id'' (card_id c) = Inr cid'" and
    body: "if cid' \<in> processed_cards s then recs = [] \<and> s' = s
           else card_records up bn ml c cid' cn link s = (Inr recs, s')"
    by (rule process_card_Inr)
  from assms(2) id' have eq: "cid' = cid" by simp
  show ?thesis
  proof (cases "cid \<in> processed_cards s")
    case True
    with body eq show ?thesis by simp
  next
    case False
    with body eq have "card_records up bn ml c cid cn link s = (Inr recs, s')" by simp
    then obtain s3 where "s' = s3\<lparr>processed_cards := insert cid (processed_cards s3)\<rparr>"
      by (rule card_records_Inr)
    then show ?thesis by simp
  qed
qed

text \<open>
  If the loop over the cards completes on a first part of the list and fails in the rest, the
  cards of the first part are in the set the failure leaves.
\<close>

lemma for_each_card_failure:
  assumes "for_each (process_card up bn ml) cs1 s = (Inr rs, s1)"
      and "for_each (process_card up bn ml) cs2 s1 = (Inl e, s2)"
  shows "for_each (process_card up bn ml) (cs1 @ cs2) s = (Inl e, s2) \<and>
         (\<forall>c \<in> set cs1. \<forall>cid. subscript ''id'' (card_id c) = Inr cid \<longrightarrow> cid \<in> processed_cards s2)"
  using assms
proof (induction cs1 arbitrary: s rs)
  case Nil
  then show ?case by (simp add: returns_def)
next
  case (Cons c cs1)
  from Cons.prems(1) obtain ys t zs where
    hd: "process_card up bn ml c s = (Inr ys, t)" and
    tl: "for_each (process_card up bn ml) cs1 t = (Inr zs, s1)"
    by (rule for_each_Cons_Inr)
  from Cons.IH [OF tl Cons.prems(2)] have
    run: "for_each (process_card up bn ml) (cs1 @ cs2) t = (Inl e, s2)" and
    ids: "\<forall>c \<in> set cs1. \<forall>cid. subscript ''id'' (card_id c) = Inr cid \<longrightarrow> cid \<in> processed_cards s2"
    by simp_all
  have "grows t s2"
    using growingD [OF growing_for_each run] growing_process_card by blast
  then have sub: "processed_cards t \<subseteq> processed_cards s2"
    by (simp add: grows_def)
  have "\<forall>cid. subscript ''id'' (card_id c) = Inr cid \<longrightarrow> cid \<in> processed_cards s2"
    using process_card_Inr_processed [OF hd] sub by blast
  moreover have "for_each (process_card up bn ml) ((c # cs1) @ cs2) s = (Inl e, s2)"
    using hd run by (simp add: andthen_def)
  ultimately show ?case using ids by simp
qed

subsection \<open>A second pass over the same upstream\<close>

lemma replay_card:
  assumes "process_card up bn ml c s = (Inr recs, s')"
      and "processed_cards s' \<subseteq> processed_cards t"
  shows "process_card up bn ml c t = (Inr [], t)"
proof -
  from assms(1) obtain cid cn link where
    id: "subscript ''id'' (card_id c) = Inr cid" and
    cn: "subscript ''name'' (card_name c) = Inr cn" and
    link: "subscript ''shortUrl'' (shortUrl c) = Inr link"
    by (rule process_card_Inr)
  from process_card_Inr_processed [OF assms(1) id] assms(2) have "cid \<in> processed_cards t"
    by blast
  with id cn link show ?thesis
    by (simp add: process_card_def andthen_lift)
qed

lemma replay_cards:
  assumes "for_each (process_card up bn ml) cs s = (Inr recs, s')"
      and "processed_cards s' \<subseteq> processed_cards t"
  shows "for_each (process_card up bn ml) cs t = (Inr [], t)"
  using assms
proof (induction cs arbitrary: s recs)
  case Nil
  then show ?case by (simp add: returns_def)
next
  case (Cons c cs)
  from Cons.prems(1) obtain ys s1 zs where
    hd: "process_card up bn ml c s = (Inr ys, s1)" and
    tl: "for_each (process_card up bn ml) cs s1 = (Inr zs, s')"
    by (rule for_each_Cons_Inr)
  have "grows s1 s'"
    using growingD [OF growing_for_each tl] growing_process_card by blast
  with Cons.prems(2) have "processed_cards s1 \<subseteq> processed_cards t"
    by (auto simp: grows_def)
  from replay_card [OF hd this] Cons.IH [OF tl Cons.prems(2)]
  show ?case by (simp add: andthen_def returns_def)
qed

lemma replay_request:
  assumes "make_request g ep s = (Inr r, s')" and "config t = config s"
  shows "make_request g ep t = (Inr r, t\<lparr>sent := sent t @ [request_for (trello_api t) ep]\<rparr>)"
  using assms request_for_config [OF assms(2), of ep]
  by (auto simp: make_request_def Let_def split: reply.splits if_splits option.splits)

lemma keeps_config: "keeps s s' \<Longrightarrow> config s' = config s"
  by (simp add: keeps_def grows_def)

lemma keeps_processed: "keeps s s' \<Longrightarrow> processed_cards s' = processed_cards s"
  by (simp add: keeps_def)

lemma grows_config: "grows s s' \<Longrightarrow> config s' = config s"
  by (simp add: grows_def)

lemma grows_processed: "grows s s' \<Longrightarrow> processed_cards s \<subseteq> processed_cards s'"
  by (simp add: grows_def)

lemma replay_board_members:
  assumes "get_board_members up bid s = (Inr ml, s')" and "config t = config s"
  obtains t' where "get_board_members up bid t = (Inr ml, t')" and "keeps t t'"
proof -
  let ?ep = "''/boards/'' @ py_str bid @ ''/members''"
  from assms(1) obtain r s1 where
    req: "make_request (on_board_members up) ?ep s = (Inr r, s1)" and
    ml: "ml = add_members (or_empty r) Map.empty"
    unfolding get_board_members_def by (auto elim!: andthen_InrE)
  from replay_request [OF req assms(2)] obtain t1 where
    "make_request (on_board_members up) ?ep t = (Inr r, t1)" by blast
  then obtain t' where run: "get_board_members up bid t = (Inr ml, t')"
    by (simp add: get_board_members_def andthen_def ml)
  from run get_board_members_keeps [OF run] show ?thesis by (rule that)
qed

lemma replay_cards_on_board:
  assumes "get_cards_on_board up bid s = (Inr cards, s')" and "config t = config s"
  obtains t' where "get_cards_on_board up bid t = (Inr cards, t')" and "keeps t t'"
proof -
  let ?ep = "''/boards/'' @ py_str bid @ ''/cards?members=true&list=true''"
  from assms(1) obtain r s1 where
    req: "make_request (on_cards up) ?ep s = (Inr r, s1)" and
    cards: "cards = or_empty r"
    unfolding get_cards_on_board_def by (auto elim!: andthen_InrE simp: returns_def)
  from replay_request [OF req assms(2)] obtain t1 where
    "make_request (on_cards up) ?ep t = (Inr r, t1)" by blast
  then obtain t' where run: "get_cards_on_board up bid t = (Inr cards, t')"
    by (simp add: get_cards_on_board_def andthen_def cards returns_def)
  from run get_cards_on_board_keeps [OF run] show ?thesis by (rule that)
qed

lemma replay_all_boards:
  assumes "get_all_boards up s = (Inr boards, s')" and "config t = config s"
  obtains t' where "get_all_boards up t = (Inr boards, t')" and "keeps t t'"
proof -
  from assms(1) obtain r s1 where
    req: "make_request (on_boards up) ''/members/me/boards'' s = (Inr r, s1)" and
    boards: "boards = or_empty r"
    unfolding get_all_boards_def by (auto elim!: andthen_InrE simp: returns_def)
  from replay_request [OF req assms(2)] obtain t1 where
    "make_request (on_boards up) ''/members/me/boards'' t = (Inr r, t1)" by blast
  then obtain t' where run: "get_all_boards up t = (Inr boards, t')"
    by (simp add: get_all_boards_def andthen_def boards returns_def)
  from run get_all_boards_keeps [OF run] show ?thesis by (rule that)
qed

lemma process_board_Inr:
  assumes "process_board up b s = (Inr recs, s')"
  obtains bid bn ml s1 cards s2 where
    "subscript ''id'' (board_id b) = Inr bid"
    "subscript ''name'' (board_name b) = Inr bn"
    "get_board_members up bid s = (Inr ml, s1)"
    "get_cards_on_board up bid s1 = (Inr cards, s2)"
    "for_each (process_card up bn ml) (active_cards cards) s2 = (Inr recs, s')"
proof -
  from assms obtain bid bn where
    bid: "subscript ''id'' (board_id b) = Inr bid" and
    bn: "subscript ''name'' (board_name b) = Inr bn" and
    r1: "andthen (get_board_members up bid) (\<lambda>member_lookup.
           andthen (get_cards_on_board up bid) (\<lambda>all_cards.
             for_each (process_card up bn member_lookup) (active_cards all_cards))) s = (Inr recs, s')"
    unfolding process_board_def andthen_lift by (auto split: sum.splits)
  from r1 obtain ml s1 where
    ml: "get_board_members up bid s = (Inr ml, s1)" and
    r2: "andthen (get_cards_on_board up bid) (\<lambda>all_cards.
           for_each (process_card up bn ml) (active_cards all_cards)) s1 = (Inr recs, s')"
    by (rule andthen_InrE)
  from r2 obtain cards s2 where
    cards: "get_cards_on_board up bid s1 = (Inr cards, s2)" and
    loop: "for_each (process_card up bn ml) (active_cards cards) s2 = (Inr recs, s')"
    by (rule andthen_InrE)
  from bid bn ml cards loop show ?thesis by (rule that)
qed

lemma replay_board:
  assumes "process_board up b s = (Inr recs, s')"
      and "config t = config s"
      and "processed_cards s' \<subseteq> processed_cards t"
  obtains t' where "process_board up b t = (Inr [], t')" and "keeps t t'"
proof -
  from assms(1) obtain bid bn ml s1 cards s2 where
    bid: "subscript ''id'' (board_id b) = Inr bid" and
    bn: "subscript ''name'' (board_name b) = Inr bn" and
    ml: "get_board_members up bid s = (Inr ml, s1)" and
    cards: "get_cards_on_board up bid s1 = (Inr cards, s2)" and
    loop: "for_each (process_card up bn ml) (active_cards cards) s2 = (Inr recs, s')"
    by (rule process_board_Inr)
  from ml assms(2) obtain t1 where
    ml': "get_board_members up bid t = (Inr ml, t1)" and k1: "keeps t t1"
    by (rule replay_board_members)
  have "config t1 = config s1"
    using keeps_config [OF k1] keeps_config [OF get_board_members_keeps [OF ml]] assms(2) by simp
  with cards obtain t2 where
    cards': "get_cards_on_board up bid t1 = (Inr cards, t2)" and k2: "keeps t1 t2"
    by (rule replay_cards_on_board)
  have "processed_cards t2 = processed_cards t"
    using keeps_processed [OF k1] keeps_processed [OF k2] by simp
  with assms(3) have "processed_cards s' \<subseteq> processed_cards t2" by simp
  from replay_cards [OF loop this]
  have "process_board up b t = (Inr [], t2)"
    using bid bn ml' cards' by (simp add: process_board_def andthen_def lift_def)
  moreover have "keeps t t2" using k1 k2 by (rule keeps_trans)
  ultimately show ?thesis by (rule that)
qed

lemma replay_boards:
  assumes "for_each (process_board up) bs s = (Inr recs, s')"
      and "config t = config s"
      and "processed_cards s' \<subseteq> processed_cards t"
  shows "\<exists>t'. for_each (process_board up) bs t = (Inr [], t') \<and> keeps t t'"
  using assms
proof (induction bs arbitrary: s recs t)
  case Nil
  then show ?case by (simp add: returns_def keeps_refl)
next
  case (Cons b bs)
  from Cons.prems(1) obtain ys s1 zs where
    hd: "process_board up b s = (Inr ys, s1)" and
    tl: "for_each (process_board up) bs s1 = (Inr zs, s')"
    by (rule for_each_Cons_Inr)
  have g: "grows s1 s'"
    using growingD [OF growing_for_each tl] growing_process_board by blast
  with Cons.prems(3) have "processed_cards s1 \<subseteq> processed_cards t"
    by (auto simp: grows_def)
  with hd Cons.prems(2) obtain t1 where
    hd': "process_board up b t = (Inr [], t1)" and k: "keeps t t1"
    by (rule replay_board)
  have c: "config t1 = config s1"
    using keeps_config [OF k] Cons.prems(2) grows_config [OF growingD [OF growing_process_board hd]]
    by simp
  have p: "processed_cards s' \<subseteq> processed_cards t1"
    using Cons.prems(3) keeps_processed [OF k] by simp
  from Cons.IH [OF tl c p] obtain t' where
    tl': "for_each (process_board up) bs t1 = (Inr [], t')" and k': "keeps t1 t'"
    by blast
  have "for_each (process_board up) (b # bs) t = (Inr [], t')"
    using hd' tl' by (simp add: andthen_def returns_def)
  moreover have "keeps t t'" using k k' by (rule keeps_trans)
  ultimately show ?case by blast
qed

text \<open>
  A pass that answered 200, run again on the same upstream from the set it left: it answers
  200 with no task, and the set stays as it is.
\<close>

lemma replay_flatten:
  assumes "flatten up now s = (Inr resp, s')" and "http_status resp = 200"
      and "config t = config s"
      and "processed_cards s' \<subseteq> processed_cards t"
  shows "\<exists>t'. flatten up now' t = (Inr \<lparr>http_status = 200, http_body = Success now' 0 []\<rparr>, t') \<and>
              keeps t t'"
proof -
  from assms(1) obtain boards s1 where
    boards: "get_all_boards up s = (Inr boards, s1)" and
    rest: "(if boards = []
            then returns \<lparr>http_status = 404, http_body = ErrorMessage ''No boards found''\<rparr>
            else andthen (for_each (process_board up) boards) (\<lambda>all_tasks.
                   returns \<lparr>http_status = 200,
                            http_body = Success now (length all_tasks) all_tasks\<rparr>)) s1 = (Inr resp, s')"
    unfolding flatten_def by (rule andthen_InrE)
  have ne: "boards \<noteq> []"
    using rest assms(2) by (auto simp: returns_def)
  with rest obtain tasks where
    loop: "for_each (process_board up) boards s1 = (Inr tasks, s')"
    by (auto elim!: andthen_InrE simp: returns_def)
  from boards assms(3) obtain t1 where
    boards': "get_all_boards up t = (Inr boards, t1)" and k1: "keeps t t1"
    by (rule replay_all_boards)
  have c: "config t1 = config s1"
    using keeps_config [OF k1] keeps_config [OF get_all_boards_keeps [OF boards]] assms(3) by simp
  have p: "processed_cards s' \<subseteq> processed_cards t1"
    using assms(4) keeps_processed [OF k1] by simp
  from replay_boards [OF loop c p] obtain t' where
    loop': "for_each (process_board up) boards t1 = (Inr [], t')" and k': "keeps t1 t'"
    by blast
  have "flatten up now' t = (Inr \<lparr>http_status = 200, http_body = Success now' 0 []\<rparr>, t')"
    using boards' ne loop' by (simp add: flatten_def andthen_def returns_def)
  moreover have "keeps t t'" using k1 k' by (rule keeps_trans)
  ultimately show ?thesis by blast
qed

subsection \<open>Deduplication across invocations\<close>

lemma sync_trello_cases:
  assumes "sync_trello env up now pc = (resp, pc', log)"
  obtains (no_credentials)
      "TRELLO_API_KEY env = ''your_api_key_here'' \<or> TRELLO_TOKEN env = ''your_token_here''"
      "resp = \<lparr>http_status = 400, http_body = ErrorMessage ''API credentials not set''\<rparr>"
      "pc' = pc" "log = []"
  | (answered) s where
      "TRELLO_API_KEY env \<noteq> ''your_api_key_here''" "TRELLO_TOKEN env \<noteq> ''your_token_here''"
      "flatten up now (start_state env pc) = (Inr resp, s)" "pc' = processed_cards s" "log = sent s"
  | (failed) e s where
      "TRELLO_API_KEY env \<noteq> ''your_api_key_here''" "TRELLO_TOKEN env \<noteq> ''your_token_here''"
      "flatten up now (start_state env pc) = (Inl e, s)"
      "resp = \<lparr>http_status = 500, http_body = ErrorOf e\<rparr>" "pc' = processed_cards s" "log = sent s"
  using assms
  by (cases "flatten up now (start_state env pc)")
     (auto simp: sync_trello_def split: if_splits sum.splits)

lemma flatten_status:
  assumes "flatten up now s = (Inr resp, s')"
  shows "http_status resp = 200 \<or> http_status resp = 404"
  using assms unfolding flatten_def
  by (auto elim!: andthen_InrE simp: returns_def split: if_splits)

lemma start_state_simps:
  "config (start_state env pc) = config (start_state env pc')"
  "processed_cards (start_state env pc) = pc"
  by (simp_all add: start_state_def config_def)

text \<open>
  C6: the set of processed cards never loses an identifier. When \<^verbatim>\<open>/sync\<close> has answered
  200, a second \<^verbatim>\<open>/sync\<close> of the same process on the same upstream answers 200 with no
  task and leaves the set as it is. And in whatever later state of the process and on
  whatever upstream, the loop body on a card whose identifier is in the set emits no record
  and changes nothing (it raises \<^verbatim>\<open>KeyError\<close> if the card has no name or no URL, since
  lines 214 and 215 come before the test).
\<close>

theorem C6_processed_card_never_emitted_again:
  assumes first: "sync_trello env up now pc = (resp, pc', log)"
  shows "pc \<subseteq> pc' \<and>
         (http_status resp = 200 \<longrightarrow>
            (\<exists>log'. sync_trello env up now' pc' =
                      (\<lparr>http_status = 200, http_body = Success now' 0 []\<rparr>, pc', log'))) \<and>
         (subscript ''id'' (card_id c) = Inr cid \<and> cid \<in> pc' \<and> pc' \<subseteq> processed_cards t \<longrightarrow>
            process_card up' bn ml c t = (Inr [], t) \<or>
            process_card up' bn ml c t = (Inl (KeyError ''name''), t) \<or>
            process_card up' bn ml c t = (Inl (KeyError ''shortUrl''), t))"
proof -
  have mono: "pc \<subseteq> pc'"
    using first by (rule sync_trello_mono)
  have again: "\<exists>log'. sync_trello env up now' pc' =
                      (\<lparr>http_status = 200, http_body = Success now' 0 []\<rparr>, pc', log')"
    if ok: "http_status resp = 200"
    using first
  proof (cases rule: sync_trello_cases)
    case no_credentials
    with ok show ?thesis by simp
  next
    case (failed e s)
    with ok show ?thesis by simp
  next
    case (answered s)
    have "processed_cards s \<subseteq> processed_cards (start_state env pc')"
      using answered(4) by (simp add: start_state_simps)
    from replay_flatten [OF answered(3) ok start_state_simps(1) this]
    obtain t' where
      run: "flatten up now' (start_state env pc') =
              (Inr \<lparr>http_status = 200, http_body = Success now' 0 []\<rparr>, t')" and
      k: "keeps (start_state env pc') t'"
      by blast
    from k have "processed_cards t' = pc'"
      by (simp add: keeps_def start_state_simps)
    with run answered(1,2) show ?thesis
      by (simp add: sync_trello_def)
  qed
  have skip: "process_card up' bn ml c t = (Inr [], t) \<or>
              process_card up' bn ml c t = (Inl (KeyError ''name''), t) \<or>
              process_card up' bn ml c t = (Inl (KeyError ''shortUrl''), t)"
    if "subscript ''id'' (card_id c) = Inr cid" "cid \<in> pc'" "pc' \<subseteq> processed_cards t"
    using that by (intro process_card_skip) auto
  from mono again skip show ?thesis by blast
qed

text \<open>
  C9: when \<^verbatim>\<open>/sync\<close> answers 500, the pass was left by an exception, the response carries
  no task, and the set of the process is the set as it was when the exception was raised: it
  contains the set from before the request, and whatever later requests the process serves,
  those identifiers stay. A card whose identifier is in it emits no record in any later
  state. The last part says what that set contains: when the loop over the cards has
  completed on some cards and then fails, the identifiers of those cards are in the set the
  failure leaves.
\<close>

theorem C9_failed_pass_keeps_processed_cards:
  assumes run: "sync_trello env up now pc = (resp, pc', log)"
      and failed: "http_status resp = 500"
  shows "(\<exists>e s. flatten up now (start_state env pc) = (Inl e, s) \<and>
                resp = \<lparr>http_status = 500, http_body = ErrorOf e\<rparr> \<and> pc' = processed_cards s) \<and>
         tasks_of resp = [] \<and>
         pc \<subseteq> pc' \<and>
         (serve env later pc' = (resps, pc'') \<longrightarrow> pc' \<subseteq> pc'') \<and>
         (subscript ''id'' (card_id c) = Inr cid \<and> cid \<in> pc' \<and> pc' \<subseteq> processed_cards t \<longrightarrow>
            process_card up' bn ml c t = (Inr [], t) \<or>
            process_card up' bn ml c t = (Inl (KeyError ''name''), t) \<or>
            process_card up' bn ml c t = (Inl (KeyError ''shortUrl''), t)) \<and>
         (for_each (process_card up' bn ml) cs1 t = (Inr rs, t1) \<and>
          for_each (process_card up' bn ml) cs2 t1 = (Inl e2, t2) \<longrightarrow>
            for_each (process_card up' bn ml) (cs1 @ cs2) t = (Inl e2, t2) \<and>
            (\<forall>c \<in> set cs1. \<forall>cid. subscript ''id'' (card_id c) = Inr cid \<longrightarrow>
               cid \<in> processed_cards t2))"
proof -
  have exc: "\<exists>e s. flatten up now (start_state env pc) = (Inl e, s) \<and>
                resp = \<lparr>http_status = 500, http_body = ErrorOf e\<rparr> \<and> pc' = processed_cards s"
    using run
  proof (cases rule: sync_trello_cases)
    case no_credentials
    with failed show ?thesis by simp
  next
    case (answered s)
    with failed flatten_status [OF answered(3)] show ?thesis by simp
  next
    case (failed e s)
    then show ?thesis by blast
  qed
  then have none: "tasks_of resp = []"
    by (auto simp: tasks_of_def)
  have mono: "pc \<subseteq> pc'"
    using run by (rule sync_trello_mono)
  have later: "serve env later pc' = (resps, pc'') \<longrightarrow> pc' \<subseteq> pc''"
    by (auto dest: serve_mono)
  have skip: "process_card up' bn ml c t = (Inr [], t) \<or>
              process_card up' bn ml c t = (Inl (KeyError ''name''), t) \<or>
              process_card up' bn ml c t = (Inl (KeyError ''shortUrl''), t)"
    if "subscript ''id'' (card_id c) = Inr cid" "cid \<in> pc'" "pc' \<subseteq> processed_cards t"
    using that by (intro process_card_skip) auto
  have loop: "for_each (process_card up' bn ml) (cs1 @ cs2) t = (Inl e2, t2) \<and>
            (\<forall>c \<in> set cs1. \<forall>cid. subscript ''id'' (card_id c) = Inr cid \<longrightarrow>
               cid \<in> processed_cards t2)"
    if "for_each (process_card up' bn ml) cs1 t = (Inr rs, t1)"
       "for_each (process_card up' bn ml) cs2 t1 = (Inl e2, t2)"
    using that by (rule for_each_card_failure)
  from exc none mono later skip loop show ?thesis by blast
qed

theorem C6_processed_card_never_emitted_again_witness:
  "fst (sync_trello ex_env ex_up ''2024-07-05T10:00:00'' {}) =
     \<lparr>http_status = 200, http_body = Success ''2024-07-05T10:00:00'' 2 ex_records\<rparr> \<and>
   fst (snd (sync_trello ex_env ex_up ''2024-07-05T10:00:00'' {})) = {Some ''c1'', Some ''c2''} \<and>
   fst (sync_trello ex_env ex_up ''2024-07-05T11:00:00''
          (fst (snd (sync_trello ex_env ex_up ''2024-07-05T10:00:00'' {})))) =
     \<lparr>http_status = 200, http_body = Success ''2024-07-05T11:00:00'' 0 []\<rparr> \<and>
   fst (process_card ex_up (Some ''Acme'') ex_lookup ex_card1 (start_state ex_env {Some ''c1'', Some ''c2''})) =
     Inr []"
proof -
  let ?first = "sync_trello ex_env ex_up ''2024-07-05T10:00:00'' {}"
  let ?t = "start_state ex_env {Some ''c1'', Some ''c2''}"
  have resp: "fst ?first =
     \<lparr>http_status = 200, http_body = Success ''2024-07-05T10:00:00'' 2 ex_records\<rparr>"
    by code_simp
  have pc: "fst (snd ?first) = {Some ''c1'', Some ''c2''}"
    by code_simp
  have run: "?first = (fst ?first, fst (snd ?first), snd (snd ?first))"
    by simp
  have id: "subscript ''id'' (card_id ex_card1) = Inr (Some ''c1'')"
    by (simp add: ex_card1_def subscript_def)
  have t: "processed_cards ?t = {Some ''c1'', Some ''c2''}"
    by (simp add: start_state_def)
  have names: "process_card ex_up (Some ''Acme'') ex_lookup ex_card1 ?t \<noteq> (Inl (KeyError ''name''), ?t)"
    "process_card ex_up (Some ''Acme'') ex_lookup ex_card1 ?t \<noteq> (Inl (KeyError ''shortUrl''), ?t)"
    by (simp_all add: process_card_def andthen_def lift_def subscript_def ex_card1_def t)
  note inst = C6_processed_card_never_emitted_again
         [OF run, where now' = "''2024-07-05T11:00:00''" and c = ex_card1 and cid = "Some ''c1''"
            and t = ?t and up' = ex_up and bn = "Some ''Acme''" and ml = ex_lookup]
  from inst resp have "\<exists>log'. sync_trello ex_env ex_up ''2024-07-05T11:00:00'' (fst (snd ?first)) =
      (\<lparr>http_status = 200, http_body = Success ''2024-07-05T11:00:00'' 0 []\<rparr>, fst (snd ?first), log')"
    by simp
  then obtain log' where "sync_trello ex_env ex_up ''2024-07-05T11:00:00'' (fst (snd ?first)) =
      (\<lparr>http_status = 200, http_body = Success ''2024-07-05T11:00:00'' 0 []\<rparr>, fst (snd ?first), log')"
    by (rule exE)
  then have second: "fst (sync_trello ex_env ex_up ''2024-07-05T11:00:00'' (fst (snd ?first))) =
      \<lparr>http_status = 200, http_body = Success ''2024-07-05T11:00:00'' 0 []\<rparr>"
    by simp
  from inst id pc t have
    "process_card ex_up (Some ''Acme'') ex_lookup ex_card1 ?t = (Inr [], ?t) \<or>
     process_card ex_up (Some ''Acme'') ex_lookup ex_card1 ?t = (Inl (KeyError ''name''), ?t) \<or>
     process_card ex_up (Some ''Acme'') ex_lookup ex_card1 ?t = (Inl (KeyError ''shortUrl''), ?t)"
    by simp
  with names have "process_card ex_up (Some ''Acme'') ex_lookup ex_card1 ?t = (Inr [], ?t)"
    by blast
  then have third: "fst (process_card ex_up (Some ''Acme'') ex_lookup ex_card1 ?t) = Inr []"
    by simp
  from resp pc second third show ?thesis
    by (intro conjI)
qed

theorem C9_failed_pass_keeps_processed_cards_witness:
  "fst (sync_trello ex_env ex_up_failing ''2024-07-05T10:00:00'' {}) =
     \<lparr>http_status = 500, http_body = ErrorOf (RequestException ''timed out'')\<rparr> \<and>
   fst (snd (sync_trello ex_env ex_up_failing ''2024-07-05T10:00:00'' {})) = {Some ''c1''} \<and>
   tasks_of (fst (sync_trello ex_env ex_up_failing ''2024-07-05T10:00:00'' {})) = [] \<and>
   fst (sync_trello ex_env ex_up ''2024-07-05T11:00:00'' {Some ''c1''}) =
     \<lparr>http_status = 200, http_body = Success ''2024-07-05T11:00:00'' 0 []\<rparr> \<and>
   fst (process_card ex_up (Some ''Acme'') ex_lookup ex_card1 (start_state ex_env {Some ''c1''})) = Inr []"
proof -
  let ?first = "sync_trello ex_env ex_up_failing ''2024-07-05T10:00:00'' {}"
  let ?t = "start_state ex_env {Some ''c1''}"
  have resp: "fst ?first =
     \<lparr>http_status = 500, http_body = ErrorOf (RequestException ''timed out'')\<rparr>"
    by code_simp
  then have failed: "http_status (fst ?first) = 500"
    by simp
  have pc: "fst (snd ?first) = {Some ''c1''}"
    by code_simp
  have later: "fst (sync_trello ex_env ex_up ''2024-07-05T11:00:00'' {Some ''c1''}) =
     \<lparr>http_status = 200, http_body = Success ''2024-07-05T11:00:00'' 0 []\<rparr>"
    by code_simp
  have run: "?first = (fst ?first, fst (snd ?first), snd (snd ?first))"
    by simp
  have id: "subscript ''id'' (card_id ex_card1) = Inr (Some ''c1'')"
    by (simp add: ex_card1_def subscript_def)
  have t: "processed_cards ?t = {Some ''c1''}"
    by (simp add: start_state_def)
  have names: "process_card ex_up (Some ''Acme'') ex_lookup ex_card1 ?t \<noteq> (Inl (KeyError ''name''), ?t)"
    "process_card ex_up (Some ''Acme'') ex_lookup ex_card1 ?t \<noteq> (Inl (KeyError ''shortUrl''), ?t)"
    by (simp_all add: process_card_def andthen_def lift_def subscript_def ex_card1_def t)
  note inst = C9_failed_pass_keeps_processed_cards
         [OF run failed, where c = ex_card1 and cid = "Some ''c1''"
            and t = ?t and up' = ex_up and bn = "Some ''Acme''" and ml = ex_lookup]
  have none: "tasks_of (fst ?first) = []"
    by (rule inst [THEN conjunct2, THEN conjunct1])
  from inst id pc t have
    "process_card ex_up (Some ''Acme'') ex_lookup ex_card1 ?t = (Inr [], ?t) \<or>
     process_card ex_up (Some ''Acme'') ex_lookup ex_card1 ?t = (Inl (KeyError ''name''), ?t) \<or>
     process_card ex_up (Some ''Acme'') ex_lookup ex_card1 ?t = (Inl (KeyError ''shortUrl''), ?t)"
    by simp
  with names have "process_card ex_up (Some ''Acme'') ex_lookup ex_card1 ?t = (Inr [], ?t)"
    by blast
  then have skipped: "fst (process_card ex_up (Some ''Acme'') ex_lookup ex_card1 ?t) = Inr []"
    by simp
  from resp pc none later skipped show ?thesis
    by (intro conjI)
qed

subsection \<open>The caches\<close>

lemma get_list_name_cached:
  "list_cache (trello_api s) lid = Some n \<Longrightarrow> get_list_name up lid s = (Inr n, s)"
  by (simp add: get_list_name_def)

lemma get_member_name_cached:
  "member_cache (trello_api s) (Some mid) = Some m \<Longrightarrow> get_member_name up mid s = (Inr m, s)"
  by (simp add: get_member_name_def)

lemma flatten_caches:
  assumes "flatten up now s = (r, s')"
  shows "list_cache (trello_api s) \<subseteq>\<^sub>m list_cache (trello_api s') \<and>
         dom (member_cache (trello_api s)) \<subseteq> dom (member_cache (trello_api s'))"
  using growingD [OF growing_flatten assms] by (simp add: grows_def)

lemma start_state_caches:
  "member_cache (trello_api (start_state env pc)) = Map.empty"
  "list_cache (trello_api (start_state env pc)) = Map.empty"
  by (simp_all add: start_state_def TrelloAPI_init_def)

lemma sync_trello_from_start_state:
  assumes "sync_trello env up now pc = (resp, pc', log)"
      and "TRELLO_API_KEY env \<noteq> ''your_api_key_here''" and "TRELLO_TOKEN env \<noteq> ''your_token_here''"
  shows "\<exists>r s'. flatten up now (start_state env pc) = (r, s') \<and> pc' = processed_cards s' \<and> log = sent s'"
  using assms(1)
  by (cases rule: sync_trello_cases) (use assms(2,3) in auto)

text \<open>
  C3 as stated fails. A first \<^verbatim>\<open>/sync\<close> resolves the list \<open>l2\<close> by its identifier and
  caches the name \<^verbatim>\<open>Todo\<close>. The list is then renamed and a new card appears in it. The
  second \<^verbatim>\<open>/sync\<close> of the same process does not find the cached name: it sends the
  request for the list again and reports the new name.
\<close>

theorem C3_counterexample:
  "list_cache (trello_api (snd (flatten ex_up ''2024-07-05T10:00:00'' (start_state ex_env {})))) ''l2'' =
     Some (Some ''Todo'') \<and>
   map Status (tasks_of (fst (sync_trello ex_env ex_up_later ''2024-07-05T11:00:00''
                                (fst (snd (sync_trello ex_env ex_up ''2024-07-05T10:00:00'' {})))))) =
     [Some ''Done''] \<and>
   \<lparr>url = ''https://api.trello.com/1/lists/l2'', key_param = ''key-1'', token_param = ''token-1''\<rparr>
     \<in> set (snd (snd (sync_trello ex_env ex_up_later ''2024-07-05T11:00:00''
                         (fst (snd (sync_trello ex_env ex_up ''2024-07-05T10:00:00'' {}))))))"
  by code_simp

text \<open>
  C3, amended: within one invocation a cached list or member name is returned as it is,
  without a request and without a change of state, and the pass drops no entry of the list
  cache and no key of the member cache. But both caches belong to the client, which every
  \<^verbatim>\<open>/sync\<close> creates anew: the pass of every invocation starts from \<open>start_state\<close>, where
  both caches are empty, and only the set of processed cards (and the log) leaves it.
\<close>

theorem C3_caches_live_within_one_invocation:
  "(list_cache (trello_api s) lid = Some n \<longrightarrow> get_list_name up lid s = (Inr n, s)) \<and>
   (member_cache (trello_api s) (Some mid) = Some m \<longrightarrow> get_member_name up mid s = (Inr m, s)) \<and>
   (flatten up now s = (r, s') \<longrightarrow>
      list_cache (trello_api s) \<subseteq>\<^sub>m list_cache (trello_api s') \<and>
      dom (member_cache (trello_api s)) \<subseteq> dom (member_cache (trello_api s'))) \<and>
   member_cache (trello_api (start_state env pc)) = Map.empty \<and>
   list_cache (trello_api (start_state env pc)) = Map.empty \<and>
   (sync_trello env up now pc = (resp, pc', log) \<and>
    TRELLO_API_KEY env \<noteq> ''your_api_key_here'' \<and> TRELLO_TOKEN env \<noteq> ''your_token_here'' \<longrightarrow>
      (\<exists>r s'. flatten up now (start_state env pc) = (r, s') \<and> pc' = processed_cards s' \<and> log = sent s'))"
  using get_list_name_cached [of s lid n up] get_member_name_cached [of s mid m up]
    flatten_caches [of up now s r s'] start_state_caches [of env pc]
    sync_trello_from_start_state [of env up now pc resp pc' log]
  by blast

theorem C3_caches_live_within_one_invocation_witness:
  "get_list_name ex_up_later ''l2'' ex_state_cached = (Inr (Some ''Todo''), ex_state_cached) \<and>
   get_member_name ex_up_later ''m1'' ex_state_cached = (Inr ''Alice'', ex_state_cached) \<and>
   list_cache (trello_api (snd (flatten ex_up_later ''2024-07-05T11:00:00'' ex_state_cached))) ''l2'' =
     Some (Some ''Todo'') \<and>
   member_cache (trello_api (start_state ex_env {Some ''c1''})) = Map.empty \<and>
   list_cache (trello_api (start_state ex_env {Some ''c1''})) = Map.empty \<and>
   snd (snd (sync_trello ex_env ex_up_later ''2024-07-05T11:00:00'' {Some ''c1''})) =
     sent (snd (flatten ex_up_later ''2024-07-05T11:00:00'' (start_state ex_env {Some ''c1''})))"
proof -
  let ?now = "''2024-07-05T11:00:00''"
  let ?pass = "flatten ex_up_later ?now ex_state_cached"
  let ?sync = "sync_trello ex_env ex_up_later ?now {Some ''c1''}"
  have l: "list_cache (trello_api ex_state_cached) ''l2'' = Some (Some ''Todo'')"
    by (simp add: ex_state_cached_def set_list_cache_def)
  have m: "member_cache (trello_api ex_state_cached) (Some ''m1'') = Some ''Alice''"
    by (simp add: ex_state_cached_def set_list_cache_def set_member_cache_def)
  have p: "?pass = (fst ?pass, snd ?pass)"
    by simp
  have q: "?sync = (fst ?sync, fst (snd ?sync), snd (snd ?sync))"
    by simp
  note inst = C3_caches_live_within_one_invocation
      [where s = ex_state_cached and lid = "''l2''" and n = "Some ''Todo''" and mid = "''m1''"
         and m = "''Alice''" and up = ex_up_later and now = ?now and r = "fst ?pass"
         and s' = "snd ?pass" and env = ex_env and pc = "{Some ''c1''}" and resp = "fst ?sync"
         and pc' = "fst (snd ?sync)" and log = "snd (snd ?sync)"]
  from inst l have a: "get_list_name ex_up_later ''l2'' ex_state_cached = (Inr (Some ''Todo''), ex_state_cached)"
    by blast
  from inst m have b: "get_member_name ex_up_later ''m1'' ex_state_cached = (Inr ''Alice'', ex_state_cached)"
    by blast
  from inst p have "list_cache (trello_api ex_state_cached) \<subseteq>\<^sub>m list_cache (trello_api (snd ?pass))"
    by blast
  with l have c: "list_cache (trello_api (snd ?pass)) ''l2'' = Some (Some ''Todo'')"
    by (auto simp: map_le_def dom_def)
  from inst have d: "member_cache (trello_api (start_state ex_env {Some ''c1''})) = Map.empty"
    and e: "list_cache (trello_api (start_state ex_env {Some ''c1''})) = Map.empty"
    by blast+
  from inst q ex_env_key have "\<exists>r s'. flatten ex_up_later ?now (start_state ex_env {Some ''c1''}) = (r, s') \<and>
      fst (snd ?sync) = processed_cards s' \<and> snd (snd ?sync) = sent s'"
    by simp
  then have f: "snd (snd ?sync) = sent (snd (flatten ex_up_later ?now (start_state ex_env {Some ''c1''})))"
    by auto
  from a b c d e f show ?thesis
    by (intro conjI)
qed

subsection \<open>The records of a pass\<close>

text \<open>The records of a loop are those of its iterations, in order.\<close>

lemma for_each_append_Inr:
  assumes "for_each f (xs @ x # ys) s = (Inr rs, s'')"
  shows "\<exists>rs1 s1 recs s2 rs2.
           for_each f xs s = (Inr rs1, s1) \<and> f x s1 = (Inr recs, s2) \<and>
           for_each f ys s2 = (Inr rs2, s'') \<and> rs = rs1 @ recs @ rs2"
  using assms
proof (induction xs arbitrary: s rs)
  case Nil
  then have "for_each f (x # ys) s = (Inr rs, s'')"
    by simp
  then obtain recs s2 rs2 where
    "f x s = (Inr recs, s2)" "for_each f ys s2 = (Inr rs2, s'')" "rs = recs @ rs2"
    by (rule for_each_Cons_Inr)
  then show ?case
    by (simp add: returns_def)
next
  case (Cons a xs)
  then have "for_each f (a # (xs @ x # ys)) s = (Inr rs, s'')"
    by simp
  then obtain as t rest where
    a: "f a s = (Inr as, t)" and
    tl: "for_each f (xs @ x # ys) t = (Inr rest, s'')" and
    rs: "rs = as @ rest"
    by (rule for_each_Cons_Inr)
  from Cons.IH [OF tl] obtain rs1 s1 recs s2 rs2 where
    one: "for_each f xs t = (Inr rs1, s1)" and two: "f x s1 = (Inr recs, s2)" and
    three: "for_each f ys s2 = (Inr rs2, s'')" and rest: "rest = rs1 @ recs @ rs2"
    by blast
  have "for_each f (a # xs) s = (Inr (as @ rs1), s1)"
    using a one by (simp add: andthen_def returns_def)
  with two three rs rest show ?case
    by auto
qed

text \<open>The tasks of a response with status 200 are the records the loop over the boards gave.\<close>

lemma flatten_tasks:
  assumes "flatten up now s = (Inr resp, s')" and "http_status resp = 200"
  obtains boards s1 where
    "get_all_boards up s = (Inr boards, s1)"
    "for_each (process_board up) boards s1 = (Inr (tasks_of resp), s')"
    "http_body resp = Success now (length (tasks_of resp)) (tasks_of resp)"
proof -
  from assms(1) obtain boards s1 where
    boards: "get_all_boards up s = (Inr boards, s1)" and
    rest: "(if boards = []
            then returns \<lparr>http_status = 404, http_body = ErrorMessage ''No boards found''\<rparr>
            else andthen (for_each (process_board up) boards) (\<lambda>all_tasks.
                   returns \<lparr>http_status = 200,
                            http_body = Success now (length all_tasks) all_tasks\<rparr>)) s1 = (Inr resp, s')"
    unfolding flatten_def by (rule andthen_InrE)
  have ne: "boards \<noteq> []"
    using rest assms(2) by (auto simp: returns_def)
  with rest obtain tasks where
    loop: "for_each (process_board up) boards s1 = (Inr tasks, s')" and
    resp: "resp = \<lparr>http_status = 200, http_body = Success now (length tasks) tasks\<rparr>"
    by (auto elim!: andthen_InrE simp: returns_def)
  from resp have "tasks_of resp = tasks"
    by (simp add: tasks_of_def)
  with boards loop resp show ?thesis
    by (intro that) auto
qed

text \<open>An archived card is not among the cards the loop runs on.\<close>

lemma active_cards_not_closed:
  "c \<in> set (active_cards all_cards) \<longleftrightarrow> c \<in> set all_cards \<and> \<not> truthy_bool (get_or (closed c) False)"
  by (auto simp: active_cards_def)

end
